theory Spec2Isabelle
  imports Complex_Main "HOL-Library.Char_ord" "HOL-Library.List_Lexorder"
begin

section \<open>JavaScript strings\<close>

text \<open>
  A JavaScript string is modelled as a \<open>string\<close> of 8-bit characters (the Latin-1
  range, which is what Node delivers for header values). \<open>String.prototype.trim\<close>
  strips the ECMAScript white space and line terminators; in this range they are
  TAB, LF, VT, FF, CR, SPACE and NBSP. Case mapping is the ASCII one.
\<close>

definition isWhiteSpace :: "char \<Rightarrow> bool" where
  "isWhiteSpace c = (c \<in> set [CHR 0x09, CHR 0x0A, CHR 0x0B, CHR 0x0C, CHR 0x0D, CHR 0x20, CHR 0xA0])"

definition trimStart :: "string \<Rightarrow> string" where
  "trimStart s = dropWhile isWhiteSpace s"

definition trimEnd :: "string \<Rightarrow> string" where
  "trimEnd s = rev (dropWhile isWhiteSpace (rev s))"

definition trim :: "string \<Rightarrow> string" where
  "trim s = trimEnd (trimStart s)"

definition toLowerChar :: "char \<Rightarrow> char" where
  "toLowerChar c =
     (let n = (of_char c :: nat) in if 65 \<le> n \<and> n \<le> 90 then char_of (n + 32) else c)"

definition toUpperChar :: "char \<Rightarrow> char" where
  "toUpperChar c =
     (let n = (of_char c :: nat) in if 97 \<le> n \<and> n \<le> 122 then char_of (n - 32) else c)"

definition toLowerCase :: "string \<Rightarrow> string" where
  "toLowerCase s = map toLowerChar s"

definition toUpperCase :: "string \<Rightarrow> string" where
  "toUpperCase s = map toUpperChar s"

definition startsWith :: "string \<Rightarrow> string \<Rightarrow> bool" where
  "startsWith s p = (take (length p) s = p)"

text \<open>\<open>haystack.includes(needle)\<close>: the needle occurs as a contiguous substring.\<close>

fun str_includes :: "string \<Rightarrow> string \<Rightarrow> bool" where
  "str_includes [] needle = (needle = [])"
| "str_includes (c # cs) needle = (startsWith (c # cs) needle \<or> str_includes cs needle)"

text \<open>\<open>xs.join(sep)\<close> on an array of strings.\<close>

fun join :: "string \<Rightarrow> string list \<Rightarrow> string" where
  "join sep [] = []"
| "join sep [x] = x"
| "join sep (x # y # ys) = x @ sep @ join sep (y # ys)"

section \<open>Edge gateway: configuration and requests\<close>

text \<open>
  The constants \<open>server/index.mjs\<close> reads from the environment at start-up. The
  allowed origins are the comma-separated \<open>ALLOWED_ORIGINS\<close> entries, trimmed,
  with the empty ones dropped.
\<close>

record config =
  OPENROUTER_API_KEY :: string
  OPENROUTER_BASE_URL :: string
  JAMAICA_API_BASE_URL :: string
  CONFIGURED_ALLOWED_ORIGINS :: "string list"
  REQUEST_BODY_LIMIT_BYTES :: int
  RATE_LIMIT_WINDOW_MS :: int
  RATE_LIMIT_MAX_REQUESTS :: int

text \<open>
  A header that Node may deliver as a string, as an array of strings, or not at all.
\<close>

datatype header_value = HUndefined | HString string | HArray "string list"

text \<open>
  The parts of an incoming request the gateway reads. \<open>parsedUrl\<close> is the result
  of \<open>new URL(req.url, ...)\<close> as (pathname, search), \<open>None\<close> when the
  constructor throws. \<open>origin\<close>, \<open>host\<close>, \<open>authorization\<close> and
  \<open>accept\<close> are single-valued headers (string or absent).
\<close>

record request =
  http_method :: string
  parsedUrl :: "(string \<times> string) option"
  origin :: "string option"
  host :: "string option"
  authorization :: "string option"
  x_api_key :: header_value
  accept :: "string option"
  x_forwarded_for :: header_value
  remoteAddress :: "string option"
  body_chunks :: "string list"

section \<open>Origin allow-list\<close>

text \<open>
  \<open>normalizeOrigin\<close>. The parameter \<open>url_origin\<close> stands for
  \<open>new URL(s).origin\<close>, with \<open>None\<close> where the constructor throws.
\<close>

definition normalizeOrigin :: "(string \<Rightarrow> string option) \<Rightarrow> string option \<Rightarrow> string option" where
  "normalizeOrigin url_origin v =
     (case v of
        None \<Rightarrow> None
      | Some s \<Rightarrow> (let trimmed = trim s in if trimmed = [] then None else url_origin trimmed))"

definition getAllowedOrigins :: "config \<Rightarrow> request \<Rightarrow> string list" where
  "getAllowedOrigins cfg req =
     (if CONFIGURED_ALLOWED_ORIGINS cfg \<noteq> [] then CONFIGURED_ALLOWED_ORIGINS cfg
      else (let h = (case host req of Some s \<Rightarrow> trim s | None \<Rightarrow> [])
            in if h = [] then [] else [''https://'' @ h, ''http://'' @ h]))"

text \<open>\<open>if (!origin) return true\<close> holds for \<open>null\<close> and for the empty string.\<close>

definition isApiOriginAllowed :: "(string \<Rightarrow> string option) \<Rightarrow> config \<Rightarrow> request \<Rightarrow> bool" where
  "isApiOriginAllowed url_origin cfg req =
     (case normalizeOrigin url_origin (origin req) of
        None \<Rightarrow> True
      | Some og \<Rightarrow>
          if og = [] then True
          else (let allowedOrigins = getAllowedOrigins cfg req
                in if allowedOrigins = [] then False else og \<in> set allowedOrigins))"

section \<open>Rate limiter\<close>

definition normalizeIp :: "string option \<Rightarrow> string" where
  "normalizeIp v =
     (case v of
        None \<Rightarrow> ''unknown''
      | Some s \<Rightarrow> (let trimmed = trim s in if trimmed = [] then ''unknown'' else trimmed))"

text \<open>\<open>forwarded.split(",")[0]\<close> is the text before the first comma.\<close>

definition getClientIp :: "request \<Rightarrow> string" where
  "getClientIp req =
     (case x_forwarded_for req of
        HString forwarded \<Rightarrow>
          if trim forwarded \<noteq> [] then normalizeIp (Some (takeWhile (\<lambda>c. c \<noteq> CHR '','') forwarded))
          else normalizeIp (Some (case remoteAddress req of
                                    None \<Rightarrow> ''unknown''
                                  | Some a \<Rightarrow> if a = [] then ''unknown'' else a))
      | HArray (first # _) \<Rightarrow> normalizeIp (Some first)
      | _ \<Rightarrow> normalizeIp (Some (case remoteAddress req of
                                  None \<Rightarrow> ''unknown''
                                | Some a \<Rightarrow> if a = [] then ''unknown'' else a)))"

record rate_window =
  startedAt :: int
  count :: int

type_synonym rate_limit_state = "string \<rightharpoonup> rate_window"

text \<open>
  \<open>isRateLimited(ip, nowMs)\<close> on the map \<open>RATE_LIMIT_STATE\<close>: the verdict and the
  map after the call.
\<close>

definition isRateLimited :: "config \<Rightarrow> string \<Rightarrow> int \<Rightarrow> rate_limit_state \<Rightarrow> bool \<times> rate_limit_state" where
  "isRateLimited cfg ip nowMs st =
     (case st ip of
        None \<Rightarrow> (False, st(ip \<mapsto> \<lparr>startedAt = nowMs, count = 1\<rparr>))
      | Some existing \<Rightarrow>
          if nowMs - startedAt existing \<ge> RATE_LIMIT_WINDOW_MS cfg
          then (False, st(ip \<mapsto> \<lparr>startedAt = nowMs, count = 1\<rparr>))
          else (count existing + 1 > RATE_LIMIT_MAX_REQUESTS cfg,
                st(ip \<mapsto> existing\<lparr>count := count existing + 1\<rparr>)))"

definition cleanupRateLimitState :: "config \<Rightarrow> int \<Rightarrow> rate_limit_state \<Rightarrow> rate_limit_state" where
  "cleanupRateLimitState cfg nowMs st =
     (\<lambda>ip. case st ip of
              None \<Rightarrow> None
            | Some state \<Rightarrow>
                if nowMs - startedAt state > RATE_LIMIT_WINDOW_MS cfg * 2 then None else Some state)"

section \<open>JSON values and request bodies\<close>

text \<open>
  A parsed JSON value. An object is the list of its properties in insertion order
  (the keys of a parsed object are distinct). \<open>get_prop v k\<close> is the property read
  \<open>v?.k\<close>, with \<open>None\<close> for \<open>undefined\<close>; it is used for keys that no
  prototype defines.
\<close>

datatype json = JNull | JBool bool | JNum rat | JStr string | JArr "json list" | JObj "(string \<times> json) list"

definition get_prop :: "json \<Rightarrow> string \<Rightarrow> json option" where
  "get_prop v k = (case v of JObj kvs \<Rightarrow> map_of kvs k | _ \<Rightarrow> None)"

text \<open>\<open>typeof v === "string" ? v : ""\<close> on a property that may be undefined.\<close>

definition string_or_empty :: "json option \<Rightarrow> string" where
  "string_or_empty v = (case v of Some (JStr s) \<Rightarrow> s | _ \<Rightarrow> [])"

text \<open>
  The builtins of the JavaScript runtime that the server calls, as parameters:
  \<open>new URL(s).origin\<close> and \<open>JSON.parse\<close> (\<open>None\<close> where they throw),
  \<open>JSON.stringify\<close>, \<open>Number.parseInt(String(v), 10)\<close> (\<open>None\<close> for NaN),
  whether \<open>new Date(s + "T00:00:00Z")\<close> is a valid date,
  \<open>new Date().getUTCFullYear()\<close>, and \<open>encodeURIComponent\<close>.
\<close>

record runtime =
  url_origin :: "string \<Rightarrow> string option"
  json_parse :: "string \<Rightarrow> json option"
  json_stringify :: "json \<Rightarrow> string"
  parseInt10 :: "json \<Rightarrow> int option"
  date_valid :: "string \<Rightarrow> bool"
  currentYear :: int
  encodeURIComponent :: "string \<Rightarrow> string"

text \<open>Decimal rendering of a number in a template string.\<close>

fun show_nat :: "nat \<Rightarrow> string" where
  "show_nat n = (if n < 10 then [char_of (48 + n)] else show_nat (n div 10) @ [char_of (48 + n mod 10)])"

definition show_int :: "int \<Rightarrow> string" where
  "show_int i = (if i < 0 then CHR ''-'' # show_nat (nat (- i)) else show_nat (nat i))"

text \<open>
  \<open>readRequestBody\<close>: the chunks are added up as they arrive and the read fails as
  soon as the running total exceeds the cap. \<open>Inl\<close> carries the message of the
  thrown error.
\<close>

fun readChunks :: "int \<Rightarrow> int \<Rightarrow> string list \<Rightarrow> string list \<Rightarrow> string + string" where
  "readChunks maxBytes tot chunks [] = Inr (concat chunks)"
| "readChunks maxBytes tot chunks (buffer # rest) =
     (let tot' = tot + int (length buffer)
      in if tot' > maxBytes
         then Inl (''Request body exceeds limit ('' @ show_int maxBytes @ '' bytes).'')
         else readChunks maxBytes tot' (chunks @ [buffer]) rest)"

definition readRequestBody :: "request \<Rightarrow> int \<Rightarrow> string + string" where
  "readRequestBody req maxBytes = readChunks maxBytes 0 [] (body_chunks req)"

definition parseJsonBody :: "runtime \<Rightarrow> string \<Rightarrow> string + json" where
  "parseJsonBody rt buffer =
     (if length buffer = 0 then Inr (JObj [])
      else (case json_parse rt buffer of
              Some v \<Rightarrow> Inr v
            | None \<Rightarrow> Inl ''Invalid JSON body.''))"

section \<open>Responses\<close>

datatype response_body = EmptyBody | JsonBody json | TextBody string | StreamBody string

record response =
  statusCode :: nat
  headers :: "(string \<times> string) list"
  body :: response_body

definition sendJson :: "nat \<Rightarrow> json \<Rightarrow> response" where
  "sendJson status payload =
     \<lparr>statusCode = status,
      headers = [(''Content-Type'', ''application/json; charset=utf-8''), (''Cache-Control'', ''no-store'')],
      body = JsonBody payload\<rparr>"

definition sendText :: "nat \<Rightarrow> string \<Rightarrow> response" where
  "sendText status text =
     \<lparr>statusCode = status,
      headers = [(''Content-Type'', ''text/plain; charset=utf-8''), (''Cache-Control'', ''no-store'')],
      body = TextBody text\<rparr>"

text \<open>The payload \<open>{ error: message }\<close>.\<close>

definition errorPayload :: "string \<Rightarrow> json" where
  "errorPayload message = JObj [(''error'', JStr message)]"

section \<open>LLM passthrough\<close>

definition OPENROUTER_CURATED_MODELS :: "string list" where
  "OPENROUTER_CURATED_MODELS =
     [''google/gemini-3.1-pro-preview'',
      ''anthropic/claude-sonnet-4.6'',
      ''openai/gpt-5.2-codex'',
      ''moonshotai/kimi-k2.5'',
      ''minimax/minimax-m2.5'']"

definition MANAGED_OPENROUTER_API_KEY_SENTINEL :: string where
  "MANAGED_OPENROUTER_API_KEY_SENTINEL = ''managed-openrouter-key''"

definition isOpenRouterCuratedModelId :: "string \<Rightarrow> bool" where
  "isOpenRouterCuratedModelId modelId = (modelId \<in> set OPENROUTER_CURATED_MODELS)"

definition hasUnmanagedClientCredentials :: "request \<Rightarrow> bool" where
  "hasUnmanagedClientCredentials req =
     (let managedBearer = ''Bearer '' @ MANAGED_OPENROUTER_API_KEY_SENTINEL;
          managedApiKey = MANAGED_OPENROUTER_API_KEY_SENTINEL
      in if (case authorization req of
               Some authHeader \<Rightarrow> length (trim authHeader) > 0 \<and> trim authHeader \<noteq> managedBearer
             | None \<Rightarrow> False) then True
         else (case x_api_key req of
                 HString xApiKey \<Rightarrow> length (trim xApiKey) > 0 \<and> trim xApiKey \<noteq> managedApiKey
               | HArray vs \<Rightarrow> list_ex (\<lambda>v. length (trim v) \<noteq> 0 \<and> trim v \<noteq> managedApiKey) vs
               | HUndefined \<Rightarrow> False))"

text \<open>\<open>OPENROUTER_ROUTE_RULES\<close>: the methods allowed on each supported path.\<close>

definition OPENROUTER_ROUTE_RULES :: "string \<Rightarrow> string list option" where
  "OPENROUTER_ROUTE_RULES =
     map_of [(''/chat/completions'', [''POST'']), (''/responses'', [''POST'']), (''/models'', [''GET''])]"

definition normalizeOpenRouterPath :: "string \<Rightarrow> string \<Rightarrow> string" where
  "normalizeOpenRouterPath pathname search =
     (let prefix = ''/api/openrouter/v1'';
          rawPath = (if startsWith pathname prefix
                     then (let rest = drop (length prefix) pathname in if rest = [] then ''/'' else rest)
                     else ''/'');
          normalizedPath = (if startsWith rawPath ''/'' then rawPath else ''/'' @ rawPath)
      in normalizedPath @ search)"

text \<open>
  The request \<open>fetch\<close> sends upstream, and what comes back: the call throws, or a
  response arrives with its status, headers and (possibly absent) body stream.
\<close>

record upstream_request =
  target :: string
  fetch_method :: string
  fetch_body :: "string option"
  fetch_headers :: "(string \<times> string) list"

datatype fetch_result = FetchThrows string | FetchResponse nat "(string \<times> string) list" "string option"

definition copyAllowedResponseHeaders :: "(string \<times> string) list \<Rightarrow> (string \<times> string) list" where
  "copyAllowedResponseHeaders upstream =
     concat (map (\<lambda>header. case map_of upstream header of
                              Some v \<Rightarrow> if v = [] then [] else [(header, v)]
                            | None \<Rightarrow> [])
                 [''content-type'', ''cache-control'', ''x-request-id''])"

text \<open>
  The tail of \<open>handleOpenRouterProxy\<close> that sends the request upstream with the
  server's credential and pipes the answer back: the response written to the client
  and the request sent.
\<close>

definition forwardUpstream ::
  "config \<Rightarrow> (upstream_request \<Rightarrow> fetch_result) \<Rightarrow> request \<Rightarrow> string \<Rightarrow> string \<Rightarrow> string option
     \<Rightarrow> response \<times> upstream_request list" where
  "forwardUpstream cfg fetch req relativePathWithQuery meth requestBody =
     (let upstreamRequest =
            \<lparr>target = OPENROUTER_BASE_URL cfg @ relativePathWithQuery,
             fetch_method = meth,
             fetch_body = requestBody,
             fetch_headers =
               [(''Authorization'', ''Bearer '' @ OPENROUTER_API_KEY cfg),
                (''Content-Type'', ''application/json''),
                (''Accept'', (case accept req of
                                Some a \<Rightarrow> if a = [] then ''application/json'' else a
                              | None \<Rightarrow> ''application/json''))]\<rparr>
      in (case fetch upstreamRequest of
            FetchResponse status hs b \<Rightarrow>
              (\<lparr>statusCode = status, headers = copyAllowedResponseHeaders hs,
                body = (case b of None \<Rightarrow> EmptyBody | Some stream \<Rightarrow> StreamBody stream)\<rparr>,
               [upstreamRequest])
          | FetchThrows message \<Rightarrow> (sendJson 502 (errorPayload message), [upstreamRequest])))"

definition unmanagedCredentialsMessage :: string where
  "unmanagedCredentialsMessage =
     ''Unmanaged client credentials are not accepted. Managed server credentials are applied automatically.''"

definition modelNotAllowedMessage :: string where
  "modelNotAllowedMessage = ''Model is not allowed. Allowed models: '' @ join '', '' OPENROUTER_CURATED_MODELS"

text \<open>
  \<open>handleOpenRouterProxy\<close>: the response written to the client and the list of
  requests sent upstream while handling it.
\<close>

definition handleOpenRouterProxy ::
  "runtime \<Rightarrow> config \<Rightarrow> (upstream_request \<Rightarrow> fetch_result) \<Rightarrow> request \<Rightarrow> string \<Rightarrow> string
     \<Rightarrow> response \<times> upstream_request list" where
  "handleOpenRouterProxy rt cfg fetch req pathname search =
     (let relativePathWithQuery = normalizeOpenRouterPath pathname search;
          relativePath = takeWhile (\<lambda>c. c \<noteq> CHR ''?'') relativePathWithQuery;
          meth = (if http_method req = [] then ''GET'' else http_method req)
      in if hasUnmanagedClientCredentials req
         then (sendJson 400 (errorPayload unmanagedCredentialsMessage), [])
         else (case OPENROUTER_ROUTE_RULES relativePath of
                 None \<Rightarrow> (sendJson 404 (errorPayload ''Unsupported OpenRouter endpoint.''), [])
               | Some allowedMethods \<Rightarrow>
                   if meth \<notin> set allowedMethods
                   then (sendJson 405 (errorPayload ''Method not allowed for endpoint.''), [])
                   else if meth = ''POST''
                   then (case readRequestBody req (REQUEST_BODY_LIMIT_BYTES cfg) of
                           Inl message \<Rightarrow> (sendJson 413 (errorPayload message), [])
                         | Inr bodyBuffer \<Rightarrow>
                             (case parseJsonBody rt bodyBuffer of
                                Inl message \<Rightarrow> (sendJson 400 (errorPayload message), [])
                              | Inr parsed \<Rightarrow>
                                  if (relativePath = ''/chat/completions'' \<or> relativePath = ''/responses'')
                                     \<and> \<not> isOpenRouterCuratedModelId (string_or_empty (get_prop parsed ''model''))
                                  then (sendJson 400 (errorPayload modelNotAllowedMessage), [])
                                  else forwardUpstream cfg fetch req relativePathWithQuery meth
                                         (Some (json_stringify rt parsed))))
                   else forwardUpstream cfg fetch req relativePathWithQuery meth None))"

section \<open>Managed tool catalog: argument normalization\<close>

text \<open>
  The normalizers throw \<open>Error(message)\<close> on a bad argument; \<open>Inl message\<close>
  is that throw. An argument is a property of the \<open>arguments\<close> object, \<open>None\<close>
  when it is undefined.
\<close>

definition isSymbolChar :: "char \<Rightarrow> bool" where
  "isSymbolChar c =
     (let n = (of_char c :: nat)
      in (65 \<le> n \<and> n \<le> 90) \<or> (48 \<le> n \<and> n \<le> 57) \<or> c = CHR ''.'' \<or> c = CHR ''-'')"

definition isDigit :: "char \<Rightarrow> bool" where
  "isDigit c = (let n = (of_char c :: nat) in 48 \<le> n \<and> n \<le> 57)"

definition normalizeSymbol :: "json option \<Rightarrow> string + string" where
  "normalizeSymbol symbol =
     (case symbol of
        Some (JStr s) \<Rightarrow>
          (let normalized = toUpperCase (trim s)
           in if 1 \<le> length normalized \<and> length normalized \<le> 20 \<and> list_all isSymbolChar normalized
              then Inr normalized
              else Inl ''symbol must contain only letters, digits, dot, or dash.'')
      | _ \<Rightarrow> Inl ''symbol must be a string.'')"

definition normalizeFrequency :: "json option \<Rightarrow> string + string" where
  "normalizeFrequency v =
     (case v of
        Some (JStr s) \<Rightarrow>
          (let lower = toLowerCase (trim s)
           in if lower = ''annual'' then Inr ''Annual''
              else if lower = ''quarterly'' then Inr ''Quarterly''
              else Inl ''frequency must be Annual or Quarterly.'')
      | _ \<Rightarrow> Inl ''frequency must be Annual or Quarterly.'')"

definition normalizeStatementType :: "json option \<Rightarrow> string + string" where
  "normalizeStatementType v =
     (case v of
        Some (JStr s) \<Rightarrow>
          (let upper = toUpperCase (trim s)
           in if upper = ''IS'' \<or> upper = ''BS'' \<or> upper = ''CF'' then Inr upper
              else Inl ''statement_type must be IS, BS, or CF.'')
      | _ \<Rightarrow> Inl ''statement_type must be IS, BS, or CF.'')"

text \<open>
  \<open>normalizeBoundedInt\<close> is only called on a defined value; \<open>opts\<close> is
  (min, max, label).
\<close>

definition normalizeBoundedInt :: "runtime \<Rightarrow> json \<Rightarrow> int \<times> int \<times> string \<Rightarrow> string + int" where
  "normalizeBoundedInt rt v opts =
     (case opts of (lo, hi, label) \<Rightarrow>
        (case parseInt10 rt v of
           None \<Rightarrow> Inl (label @ '' must be an integer.'')
         | Some parsed \<Rightarrow>
             if parsed < lo \<or> parsed > hi
             then Inl (label @ '' must be between '' @ show_int lo @ '' and '' @ show_int hi @ ''.'')
             else Inr parsed))"

text \<open>The pattern \<open>^\d{4}-\d{2}-\d{2}$\<close>.\<close>

definition isIsoDateShape :: "string \<Rightarrow> bool" where
  "isIsoDateShape s =
     (length s = 10 \<and> list_all isDigit (take 4 s) \<and> s ! 4 = CHR ''-''
        \<and> list_all isDigit (take 2 (drop 5 s)) \<and> s ! 7 = CHR ''-''
        \<and> list_all isDigit (drop 8 s))"

definition normalizeIsoDate :: "runtime \<Rightarrow> json option \<Rightarrow> string \<Rightarrow> string + string" where
  "normalizeIsoDate rt v label =
     (case v of
        Some (JStr s) \<Rightarrow>
          (let trimmed = trim s
           in if \<not> isIsoDateShape trimmed then Inl (label @ '' must be YYYY-MM-DD.'')
              else if \<not> date_valid rt trimmed then Inl (label @ '' is not a valid date.'')
              else Inr trimmed)
      | _ \<Rightarrow> Inl (label @ '' must be YYYY-MM-DD.''))"

section \<open>Managed protocol endpoint\<close>

definition buildJsonRpcSuccess :: "json option \<Rightarrow> json \<Rightarrow> json" where
  "buildJsonRpcSuccess id' result =
     JObj ([(''jsonrpc'', JStr ''2.0'')]
           @ (case id' of None \<Rightarrow> [] | Some i \<Rightarrow> [(''id'', i)])
           @ [(''result'', result)])"

definition buildJsonRpcError :: "json option \<Rightarrow> int \<Rightarrow> string \<Rightarrow> json" where
  "buildJsonRpcError id' code message =
     JObj [(''jsonrpc'', JStr ''2.0''),
           (''id'', (case id' of None \<Rightarrow> JNull | Some i \<Rightarrow> i)),
           (''error'', JObj [(''code'', JNum (of_int code)), (''message'', JStr message)])]"

text \<open>The schema pattern \<open>^\d{4}-\d{2}-\d{2}$\<close>; \<open>CHR 0x5C\<close> is the backslash.\<close>

definition isoDatePattern :: string where
  "isoDatePattern =
     ''^'' @ [CHR 0x5C] @ ''d{4}-'' @ [CHR 0x5C] @ ''d{2}-'' @ [CHR 0x5C] @ ''d{2}$''"

definition MANAGED_MCP_TOOLS :: json where
  "MANAGED_MCP_TOOLS = JArr
     [JObj [(''name'', JStr ''jm_list_companies''),
            (''description'', JStr ''List companies on the Jamaican market.''),
            (''inputSchema'', JObj
               [(''type'', JStr ''object''),
                (''additionalProperties'', JBool False),
                (''properties'', JObj
                   [(''limit'', JObj
                       [(''type'', JStr ''integer''), (''minimum'', JNum 1), (''maximum'', JNum 500),
                        (''description'', JStr ''Maximum number of companies to return (default 200).'')])])])],
      JObj [(''name'', JStr ''jm_get_company''),
            (''description'', JStr ''Get company profile for a JSE ticker symbol.''),
            (''inputSchema'', JObj
               [(''type'', JStr ''object''),
                (''additionalProperties'', JBool False),
                (''required'', JArr [JStr ''symbol'']),
                (''properties'', JObj
                   [(''symbol'', JObj [(''type'', JStr ''string''),
                                       (''description'', JStr ''Ticker symbol, e.g. GK.'')])])])],
      JObj [(''name'', JStr ''jm_get_statement''),
            (''description'', JStr ''Get one income/balance/cashflow statement for a symbol.''),
            (''inputSchema'', JObj
               [(''type'', JStr ''object''),
                (''additionalProperties'', JBool False),
                (''required'', JArr [JStr ''symbol'', JStr ''frequency'', JStr ''statement_type'']),
                (''properties'', JObj
                   [(''symbol'', JObj [(''type'', JStr ''string'')]),
                    (''frequency'', JObj [(''type'', JStr ''string''),
                                          (''enum'', JArr [JStr ''Annual'', JStr ''Quarterly''])]),
                    (''statement_type'', JObj [(''type'', JStr ''string''),
                                               (''enum'', JArr [JStr ''IS'', JStr ''BS'', JStr ''CF''])]),
                    (''year'', JObj [(''type'', JStr ''integer''), (''minimum'', JNum 1990),
                                     (''maximum'', JNum 2100)])])])],
      JObj [(''name'', JStr ''jm_get_all_statements''),
            (''description'', JStr ''Get multiple years of statements for a symbol.''),
            (''inputSchema'', JObj
               [(''type'', JStr ''object''),
                (''additionalProperties'', JBool False),
                (''required'', JArr [JStr ''symbol'', JStr ''frequency'']),
                (''properties'', JObj
                   [(''symbol'', JObj [(''type'', JStr ''string'')]),
                    (''frequency'', JObj [(''type'', JStr ''string''),
                                          (''enum'', JArr [JStr ''Annual'', JStr ''Quarterly''])]),
                    (''years'', JObj
                       [(''type'', JStr ''integer''), (''minimum'', JNum 1), (''maximum'', JNum 10),
                        (''description'', JStr ''How many years to retrieve (default 5).'')])])])],
      JObj [(''name'', JStr ''jm_get_price_data''),
            (''description'', JStr ''Get historical closing price and volume for a date range.''),
            (''inputSchema'', JObj
               [(''type'', JStr ''object''),
                (''additionalProperties'', JBool False),
                (''required'', JArr [JStr ''symbol'', JStr ''start_date'', JStr ''end_date'']),
                (''properties'', JObj
                   [(''symbol'', JObj [(''type'', JStr ''string'')]),
                    (''start_date'', JObj [(''type'', JStr ''string''),
                                           (''pattern'', JStr isoDatePattern)]),
                    (''end_date'', JObj [(''type'', JStr ''string''),
                                         (''pattern'', JStr isoDatePattern)])])])]]"

text \<open>
  \<open>fetchJamaicaJson\<close>: one upstream GET. The result is the parsed payload or the
  message of the thrown error, with the request that was sent.
\<close>

definition fetchJamaicaJson ::
  "runtime \<Rightarrow> config \<Rightarrow> (upstream_request \<Rightarrow> fetch_result) \<Rightarrow> string
     \<Rightarrow> (string + json) \<times> upstream_request list" where
  "fetchJamaicaJson rt cfg fetch endpointPath =
     (let upstreamRequest =
            \<lparr>target = JAMAICA_API_BASE_URL cfg @ endpointPath,
             fetch_method = ''GET'',
             fetch_body = None,
             fetch_headers = [(''Accept'', ''application/json'')]\<rparr>
      in (case fetch upstreamRequest of
            FetchThrows message \<Rightarrow> (Inl message, [upstreamRequest])
          | FetchResponse status hs b \<Rightarrow>
              (let bodyText = (case b of None \<Rightarrow> [] | Some t \<Rightarrow> t)
               in if \<not> (200 \<le> status \<and> status \<le> 299)
                  then (Inl (''Jamaica market API failed ('' @ show_nat status @ ''): '' @ take 200 bodyText),
                        [upstreamRequest])
                  else (case json_parse rt bodyText of
                          Some v \<Rightarrow> (Inr v, [upstreamRequest])
                        | None \<Rightarrow> (Inl ''Jamaica market API returned non-JSON response.'',
                                   [upstreamRequest])))))"

definition summarizeStructuredResponse :: "string \<Rightarrow> json \<Rightarrow> string" where
  "summarizeStructuredResponse name payload =
     (case payload of
        JArr xs \<Rightarrow> name @ '': returned '' @ show_nat (length xs) @ '' record''
                     @ (if length xs = 1 then [] else ''s'') @ ''.''
      | JObj kvs \<Rightarrow> name @ '': returned object response.''
      | _ \<Rightarrow> name @ '': returned scalar response.'')"

definition toolResult :: "string \<Rightarrow> json \<Rightarrow> json" where
  "toolResult name data =
     JObj [(''content'', JArr [JObj [(''type'', JStr ''text''),
                                     (''text'', JStr (summarizeStructuredResponse name data))]]),
           (''structuredContent'', data)]"

text \<open>The fetch-and-wrap tail shared by the tools other than \<open>jm_list_companies\<close>.\<close>

definition fetchAndWrap ::
  "runtime \<Rightarrow> config \<Rightarrow> (upstream_request \<Rightarrow> fetch_result) \<Rightarrow> string \<Rightarrow> string
     \<Rightarrow> (string + json) \<times> upstream_request list" where
  "fetchAndWrap rt cfg fetch name endpoint =
     (case fetchJamaicaJson rt cfg fetch endpoint of
        (Inl message, sent) \<Rightarrow> (Inl message, sent)
      | (Inr data, sent) \<Rightarrow> (Inr (toolResult name data), sent))"

text \<open>
  \<open>runManagedMcpTool\<close>: the tool result or the message of the thrown error, and the
  upstream requests made.
\<close>

definition runManagedMcpTool ::
  "runtime \<Rightarrow> config \<Rightarrow> (upstream_request \<Rightarrow> fetch_result) \<Rightarrow> string \<Rightarrow> json option
     \<Rightarrow> (string + json) \<times> upstream_request list" where
  "runManagedMcpTool rt cfg fetch name argsRaw =
     (let args = (case argsRaw of
                    Some (JObj kvs) \<Rightarrow> JObj kvs
                  | Some (JArr xs) \<Rightarrow> JArr xs
                  | _ \<Rightarrow> JObj [])
      in if name = ''jm_list_companies'' then
           (case (case get_prop args ''limit'' of
                    None \<Rightarrow> Inr 200
                  | Some v \<Rightarrow> normalizeBoundedInt rt v (1, 500, ''limit'')) of
              Inl message \<Rightarrow> (Inl message, [])
            | Inr limit \<Rightarrow>
                (case fetchJamaicaJson rt cfg fetch ''/company'' of
                   (Inl message, sent) \<Rightarrow> (Inl message, sent)
                 | (Inr data, sent) \<Rightarrow>
                     (let sliced = (case data of JArr xs \<Rightarrow> JArr (take (nat limit) xs) | _ \<Rightarrow> data)
                      in (Inr (toolResult name sliced), sent))))
         else if name = ''jm_get_company'' then
           (case normalizeSymbol (get_prop args ''symbol'') of
              Inl message \<Rightarrow> (Inl message, [])
            | Inr symbol \<Rightarrow>
                fetchAndWrap rt cfg fetch name (''/company/'' @ encodeURIComponent rt symbol))
         else if name = ''jm_get_statement'' then
           (case normalizeSymbol (get_prop args ''symbol'') of
              Inl message \<Rightarrow> (Inl message, [])
            | Inr symbol \<Rightarrow>
           (case normalizeFrequency (get_prop args ''frequency'') of
              Inl message \<Rightarrow> (Inl message, [])
            | Inr frequency \<Rightarrow>
           (case normalizeStatementType (get_prop args ''statement_type'') of
              Inl message \<Rightarrow> (Inl message, [])
            | Inr statementType \<Rightarrow>
                (let endpoint = ''/statement/'' @ encodeURIComponent rt symbol @ ''/'' @ frequency
                                  @ ''/'' @ statementType
                 in (case get_prop args ''year'' of
                       None \<Rightarrow> fetchAndWrap rt cfg fetch name endpoint
                     | Some v \<Rightarrow>
                         (case normalizeBoundedInt rt v (1990, currentYear rt + 1, ''year'') of
                            Inl message \<Rightarrow> (Inl message, [])
                          | Inr year \<Rightarrow>
                              fetchAndWrap rt cfg fetch name (endpoint @ ''/'' @ show_int year)))))))
         else if name = ''jm_get_all_statements'' then
           (case normalizeSymbol (get_prop args ''symbol'') of
              Inl message \<Rightarrow> (Inl message, [])
            | Inr symbol \<Rightarrow>
           (case normalizeFrequency (get_prop args ''frequency'') of
              Inl message \<Rightarrow> (Inl message, [])
            | Inr frequency \<Rightarrow>
           (case (case get_prop args ''years'' of
                    None \<Rightarrow> Inr 5
                  | Some v \<Rightarrow> normalizeBoundedInt rt v (1, 10, ''years'')) of
              Inl message \<Rightarrow> (Inl message, [])
            | Inr years \<Rightarrow>
                fetchAndWrap rt cfg fetch name
                  (''/all_statements/'' @ encodeURIComponent rt symbol @ ''/'' @ frequency
                     @ ''/'' @ show_int years))))
         else if name = ''jm_get_price_data'' then
           (case normalizeSymbol (get_prop args ''symbol'') of
              Inl message \<Rightarrow> (Inl message, [])
            | Inr symbol \<Rightarrow>
           (case normalizeIsoDate rt (get_prop args ''start_date'') ''start_date'' of
              Inl message \<Rightarrow> (Inl message, [])
            | Inr startDate \<Rightarrow>
           (case normalizeIsoDate rt (get_prop args ''end_date'') ''end_date'' of
              Inl message \<Rightarrow> (Inl message, [])
            | Inr endDate \<Rightarrow>
                if startDate > endDate
                then (Inl ''start_date must be on or before end_date.'', [])
                else fetchAndWrap rt cfg fetch name
                       (''/price_data/'' @ encodeURIComponent rt symbol @ ''/'' @ startDate
                          @ ''/'' @ endDate))))
         else (Inl (''Unknown tool: '' @ name), []))"

definition MCP_SERVER_NAME :: string where
  "MCP_SERVER_NAME = ''flo-pro-jamaica-market''"

definition MCP_PROTOCOL_VERSION :: string where
  "MCP_PROTOCOL_VERSION = ''2025-03-26''"

text \<open>\<open>v?.k\<close> on a value that may itself be undefined.\<close>

definition opt_prop :: "json option \<Rightarrow> string \<Rightarrow> json option" where
  "opt_prop v k = (case v of None \<Rightarrow> None | Some j \<Rightarrow> get_prop j k)"

text \<open>
  The dispatch on the method of a parsed JSON-RPC payload, with the \<open>catch\<close> that
  turns an error thrown by a tool into the code -32000. The notification branch
  ends the response with status 204 and writes nothing.
\<close>

definition dispatchManagedMcpRpc ::
  "runtime \<Rightarrow> config \<Rightarrow> (upstream_request \<Rightarrow> fetch_result) \<Rightarrow> json
     \<Rightarrow> response \<times> upstream_request list" where
  "dispatchManagedMcpRpc rt cfg fetch payload =
     (let id' = get_prop payload ''id'';
          meth = string_or_empty (get_prop payload ''method'');
          params = get_prop payload ''params''
      in if meth = ''initialize'' then
           (sendJson 200 (buildJsonRpcSuccess id' (JObj
              [(''protocolVersion'', JStr MCP_PROTOCOL_VERSION),
               (''capabilities'', JObj [(''tools'', JObj [(''listChanged'', JBool False)])]),
               (''serverInfo'', JObj [(''name'', JStr MCP_SERVER_NAME),
                                      (''version'', JStr ''1.0.0'')])])), [])
         else if meth = ''notifications/initialized'' then
           (if id' = None \<or> id' = Some JNull
            then (\<lparr>statusCode = 204, headers = [], body = EmptyBody\<rparr>, [])
            else (sendJson 200 (buildJsonRpcSuccess id' (JObj [])), []))
         else if meth = ''tools/list'' then
           (sendJson 200 (buildJsonRpcSuccess id' (JObj [(''tools'', MANAGED_MCP_TOOLS)])), [])
         else if meth = ''tools/call'' then
           (let name = string_or_empty (opt_prop params ''name'');
                args = opt_prop params ''arguments''
            in if name = []
               then (sendJson 400 (buildJsonRpcError id' (- 32602) ''tools/call requires params.name''), [])
               else (case runManagedMcpTool rt cfg fetch name args of
                       (Inl message, sent) \<Rightarrow>
                         (sendJson 400 (buildJsonRpcError id' (- 32000) message), sent)
                     | (Inr result, sent) \<Rightarrow>
                         (sendJson 200 (buildJsonRpcSuccess id' result), sent)))
         else (sendJson 404 (buildJsonRpcError id' (- 32601)
                 (''Method not found: '' @ (if meth = [] then ''(empty)'' else meth))), []))"

text \<open>\<open>handleManagedMcpRpc\<close>: the response and the upstream requests made.\<close>

definition handleManagedMcpRpc ::
  "runtime \<Rightarrow> config \<Rightarrow> (upstream_request \<Rightarrow> fetch_result) \<Rightarrow> request
     \<Rightarrow> response \<times> upstream_request list" where
  "handleManagedMcpRpc rt cfg fetch req =
     (if http_method req \<noteq> ''POST'' then (sendJson 405 (errorPayload ''Method not allowed''), [])
      else (case readRequestBody req (REQUEST_BODY_LIMIT_BYTES cfg) of
              Inl message \<Rightarrow> (sendJson 413 (errorPayload message), [])
            | Inr bodyBuffer \<Rightarrow>
                (case parseJsonBody rt bodyBuffer of
                   Inl message \<Rightarrow> (sendJson 400 (buildJsonRpcError None (- 32700) message), [])
                 | Inr payload \<Rightarrow> dispatchManagedMcpRpc rt cfg fetch payload)))"

section \<open>The request handler\<close>

text \<open>Routing by path, after the checks on \<open>/api/\<close> requests.\<close>

definition routeRequest ::
  "runtime \<Rightarrow> config \<Rightarrow> (upstream_request \<Rightarrow> fetch_result) \<Rightarrow> (request \<Rightarrow> string \<Rightarrow> response)
     \<Rightarrow> request \<Rightarrow> string \<Rightarrow> string \<Rightarrow> response \<times> upstream_request list" where
  "routeRequest rt cfg fetch serveStatic req pathname search =
     (if pathname = ''/healthz''
      then (sendJson 200 (JObj [(''ok'', JBool True),
                                (''service'', JStr ''flopro-backend''),
                                (''openrouterConfigured'', JBool (OPENROUTER_API_KEY cfg \<noteq> [])),
                                (''curatedModelCount'',
                                   JNum (of_nat (length OPENROUTER_CURATED_MODELS)))]), [])
      else if startsWith pathname ''/api/openrouter/v1''
      then handleOpenRouterProxy rt cfg fetch req pathname search
      else if pathname = ''/api/mcp/jamaica-market''
      then handleManagedMcpRpc rt cfg fetch req
      else if startsWith pathname ''/api/''
      then (sendJson 404 (errorPayload ''Unknown API route''), [])
      else (serveStatic req pathname, []))"

text \<open>
  The handler of \<open>http.createServer\<close>. \<open>nowMs\<close> is \<open>Date.now()\<close> while the
  request is handled; \<open>serveStatic\<close> is the static-asset fallback; a URL that
  does not parse ends in the handler's \<open>catch\<close> with status 500. The result is
  the response, the rate-limit map afterwards and the upstream requests made.
\<close>

definition handler ::
  "runtime \<Rightarrow> config \<Rightarrow> (upstream_request \<Rightarrow> fetch_result) \<Rightarrow> (request \<Rightarrow> string \<Rightarrow> response)
     \<Rightarrow> int \<Rightarrow> request \<Rightarrow> rate_limit_state \<Rightarrow> response \<times> rate_limit_state \<times> upstream_request list" where
  "handler rt cfg fetch serveStatic nowMs req st =
     (case parsedUrl req of
        None \<Rightarrow> (sendJson 500 (errorPayload ''Invalid URL''), st, [])
      | Some (pathname, search) \<Rightarrow>
          (let st1 = cleanupRateLimitState cfg nowMs st;
               ip = getClientIp req
           in if startsWith pathname ''/api/''
              then (if \<not> isApiOriginAllowed (url_origin rt) cfg req
                    then (sendJson 403 (errorPayload ''Origin not allowed''), st1, [])
                    else (case isRateLimited cfg ip nowMs st1 of
                            (limited, st2) \<Rightarrow>
                              if limited
                              then (sendJson 429 (errorPayload ''Rate limit exceeded. Try again later.''),
                                    st2, [])
                              else (case routeRequest rt cfg fetch serveStatic req pathname search of
                                      (res, sent) \<Rightarrow> (res, st2, sent))))
              else (case routeRequest rt cfg fetch serveStatic req pathname search of
                      (res, sent) \<Rightarrow> (res, st1, sent))))"

section \<open>Gateway client: servers, catalogs and the injected dependencies\<close>

record McpServerConfig =
  server_id :: string
  server_name :: string
  server_url :: string
  enabled :: bool
  token :: "string option"

record McpToolDescriptor =
  serverId :: string
  serverName :: string
  serverUrl :: string
  toolName :: string
  description :: "string option"
  inputSchema :: "json option"

record ServerToolList =
  server :: McpServerConfig
  tools :: "McpToolDescriptor list"
  proxied :: bool
  proxyBaseUrl :: "string option"

record RpcCallResult =
  rpc_result :: json
  result_proxied :: bool
  result_proxyBaseUrl :: "string option"

record McpRuntimeConfig =
  servers :: "McpServerConfig list"
  config_proxyBaseUrl :: "string option"

text \<open>A thrown value: a plain \<open>Error\<close> or an \<open>McpRpcError\<close> with its optional code.\<close>

datatype js_error = Error string | McpRpcError string "int option"

text \<open>The arguments of one \<open>callJsonRpc\<close> call (the abort signal is not modelled).\<close>

record rpc_call =
  call_server :: McpServerConfig
  call_method :: string
  call_params :: "json option"
  call_proxyBaseUrl :: "string option"
  expectResponse :: bool

text \<open>
  What the gateway takes from outside this file: the injected \<open>callJsonRpc\<close>, a
  function of the state \<open>'w\<close> of the outside world that rejects
  (\<open>Inl\<close>) or resolves to a result or to \<open>null\<close>; and the helpers imported from
  other modules, \<open>isRecord\<close>, \<open>getErrorMessage\<close>,
  \<open>integrationsCommandHint()\<close>, \<open>APP_NAME\<close> and \<open>APP_VERSION\<close>, and
  \<open>JSON.parse\<close>.
\<close>

record 'w dependencies =
  callJsonRpc :: "'w \<Rightarrow> rpc_call \<Rightarrow> (js_error + RpcCallResult option) \<times> 'w"
  isRecord :: "json \<Rightarrow> bool"
  getErrorMessage :: "js_error \<Rightarrow> string"
  integrationsCommandHint :: string
  APP_NAME :: string
  APP_VERSION :: string
  JSON_parse :: "string \<Rightarrow> json option"

text \<open>
  The state of one gateway instance: the catalog cache \<open>toolCache\<close>, the outside
  world, and the log of the \<open>callJsonRpc\<close> calls issued so far.
\<close>

record 'w client_state =
  toolCache :: "string \<rightharpoonup> ServerToolList"
  world :: 'w
  issued :: "rpc_call list"

definition issue :: "'w dependencies \<Rightarrow> 'w client_state \<Rightarrow> rpc_call
    \<Rightarrow> (js_error + RpcCallResult option) \<times> 'w client_state" where
  "issue deps st call =
     (case callJsonRpc deps (world st) call of
        (r, w) \<Rightarrow> (r, st\<lparr>world := w, issued := issued st @ [call]\<rparr>))"

definition normalizeOptionalString :: "json option \<Rightarrow> string option" where
  "normalizeOptionalString v =
     (case v of
        Some (JStr s) \<Rightarrow> (let trimmed = trim s in if length trimmed > 0 then Some trimmed else None)
      | _ \<Rightarrow> None)"

definition normalizeServerToken :: "string \<Rightarrow> string" where
  "normalizeServerToken v = toLowerCase (trim v)"

fun findServerByToken :: "McpServerConfig list \<Rightarrow> string \<Rightarrow> McpServerConfig option" where
  "findServerByToken [] tok = None"
| "findServerByToken (s # rest) tok =
     (if normalizeServerToken (server_id s) = normalizeServerToken tok then Some s
      else if normalizeServerToken (server_name s) = normalizeServerToken tok then Some s
      else findServerByToken rest tok)"

text \<open>\<open>isRecord\<close> on a value that may be undefined.\<close>

definition isRecordOpt :: "'w dependencies \<Rightarrow> json option \<Rightarrow> bool" where
  "isRecordOpt deps v = (case v of None \<Rightarrow> False | Some j \<Rightarrow> isRecord deps j)"

definition parseToolListResult :: "'w dependencies \<Rightarrow> McpServerConfig \<Rightarrow> json \<Rightarrow> McpToolDescriptor list" where
  "parseToolListResult deps srv v =
     (if \<not> isRecord deps v then []
      else if \<not> isRecordOpt deps (get_prop v ''result'') then []
      else (case opt_prop (get_prop v ''result'') ''tools'' of
              Some (JArr items) \<Rightarrow>
                concat (map (\<lambda>item.
                  if \<not> isRecord deps item then []
                  else (case normalizeOptionalString (get_prop item ''name'') of
                          None \<Rightarrow> []
                        | Some name \<Rightarrow>
                            [\<lparr>serverId = server_id srv,
                              serverName = server_name srv,
                              serverUrl = server_url srv,
                              toolName = name,
                              description = normalizeOptionalString (get_prop item ''description''),
                              inputSchema = get_prop item ''inputSchema''\<rparr>])) items)
            | _ \<Rightarrow> []))"

datatype raw_args = ArgsUndefined | ArgsString string | ArgsRecord json

definition parseCallArgs :: "'w dependencies \<Rightarrow> raw_args \<Rightarrow> js_error + json" where
  "parseCallArgs deps rawArgs =
     (case rawArgs of
        ArgsUndefined \<Rightarrow> Inr (JObj [])
      | ArgsString s \<Rightarrow>
          (case JSON_parse deps s of
             Some v \<Rightarrow> Inr v
           | None \<Rightarrow> Inl (Error ''mcp.args must be valid JSON.''))
      | ArgsRecord r \<Rightarrow>
          if isRecord deps r then Inr r
          else Inl (Error ''mcp.args must be a JSON string or an object.''))"

definition getRpcErrorCode :: "js_error \<Rightarrow> int option" where
  "getRpcErrorCode e = (case e of McpRpcError m c \<Rightarrow> c | Error m \<Rightarrow> None)"

definition isRecoverableToolCallError :: "'w dependencies \<Rightarrow> js_error \<Rightarrow> bool" where
  "isRecoverableToolCallError deps e =
     (let message = toLowerCase (getErrorMessage deps e)
      in str_includes message ''tool not found''
         \<or> str_includes message ''method not found''
         \<or> str_includes message ''unknown tool''
         \<or> str_includes message ''stale''
         \<or> str_includes message ''no response''
         \<or> str_includes message ''not available'')"

definition withMcpRemediationHint :: "'w dependencies \<Rightarrow> string \<Rightarrow> string \<Rightarrow> string" where
  "withMcpRemediationHint deps message operation =
     (let normalized = toLowerCase message
      in if str_includes normalized ''unknown mcp server''
         then message @ '' Tip: run `mcp` with no params to list configured servers and IDs.''
         else if operation = ''tool'' \<and> str_includes normalized ''available on multiple servers''
         then message @ '' Tip: include the `server` parameter to disambiguate.''
         else if operation = ''tool''
                 \<and> (str_includes normalized ''tool not found'' \<or> str_includes normalized ''unknown tool'')
         then message @ '' Tip: run `search` first, then `describe`, before calling `tool`.''
         else if str_includes normalized ''disabled''
         then message @ '' Enable it in '' @ integrationsCommandHint deps @ ''.''
         else message)"

section \<open>Gateway client: catalogs\<close>

definition MCP_CLIENT_PROTOCOL_VERSION :: string where
  "MCP_CLIENT_PROTOCOL_VERSION = ''2025-03-26''"

text \<open>The three requests of a catalog fetch.\<close>

definition initializeCall :: "'w dependencies \<Rightarrow> McpServerConfig \<Rightarrow> string option \<Rightarrow> rpc_call" where
  "initializeCall deps srv pbu =
     \<lparr>call_server = srv, call_method = ''initialize'',
      call_params = Some (JObj
        [(''protocolVersion'', JStr MCP_CLIENT_PROTOCOL_VERSION),
         (''capabilities'', JObj []),
         (''clientInfo'', JObj [(''name'', JStr (APP_NAME deps)),
                                (''version'', JStr (APP_VERSION deps))])]),
      call_proxyBaseUrl = pbu, expectResponse = True\<rparr>"

definition initializedCall :: "McpServerConfig \<Rightarrow> string option \<Rightarrow> rpc_call" where
  "initializedCall srv pbu =
     \<lparr>call_server = srv, call_method = ''notifications/initialized'',
      call_params = None, call_proxyBaseUrl = pbu, expectResponse = False\<rparr>"

definition toolsListCall :: "McpServerConfig \<Rightarrow> string option \<Rightarrow> rpc_call" where
  "toolsListCall srv pbu =
     \<lparr>call_server = srv, call_method = ''tools/list'',
      call_params = Some (JObj []), call_proxyBaseUrl = pbu, expectResponse = True\<rparr>"

text \<open>
  \<open>ensureServerTools\<close>: the cached catalog unless \<open>refresh\<close> is set or nothing is
  cached; otherwise initialize, notifications/initialized and tools/list, and the
  new catalog replaces the cache entry. A rejected call propagates.
\<close>

definition ensureServerTools ::
  "'w dependencies \<Rightarrow> 'w client_state \<Rightarrow> McpServerConfig \<Rightarrow> string option \<Rightarrow> bool
     \<Rightarrow> (js_error + ServerToolList) \<times> 'w client_state" where
  "ensureServerTools deps st srv pbu refresh =
     (case (if refresh then None else toolCache st (server_id srv)) of
        Some cached \<Rightarrow> (Inr cached, st)
      | None \<Rightarrow>
          (case issue deps st (initializeCall deps srv pbu) of
             (Inl e, st1) \<Rightarrow> (Inl e, st1)
           | (Inr r1, st1) \<Rightarrow>
          (case issue deps st1 (initializedCall srv pbu) of
             (Inl e, st2) \<Rightarrow> (Inl e, st2)
           | (Inr r2, st2) \<Rightarrow>
          (case issue deps st2 (toolsListCall srv pbu) of
             (Inl e, st3) \<Rightarrow> (Inl e, st3)
           | (Inr None, st3) \<Rightarrow> (Inl (Error ''MCP tools/list returned no response.''), st3)
           | (Inr (Some listResult), st3) \<Rightarrow>
               (let entry = \<lparr>server = srv,
                             tools = parseToolListResult deps srv (rpc_result listResult),
                             proxied = result_proxied listResult,
                             proxyBaseUrl = result_proxyBaseUrl listResult\<rparr>
                in (Inr entry, st3\<lparr>toolCache := (toolCache st3)(server_id srv \<mapsto> entry)\<rparr>))))))"

fun listToolsAcrossServers ::
  "'w dependencies \<Rightarrow> 'w client_state \<Rightarrow> McpServerConfig list \<Rightarrow> string option
     \<Rightarrow> (js_error + ServerToolList list) \<times> 'w client_state" where
  "listToolsAcrossServers deps st [] pbu = (Inr [], st)"
| "listToolsAcrossServers deps st (srv # rest) pbu =
     (if \<not> enabled srv then listToolsAcrossServers deps st rest pbu
      else (case ensureServerTools deps st srv pbu False of
              (Inl e, st1) \<Rightarrow> (Inl e, st1)
            | (Inr lst, st1) \<Rightarrow>
                (case listToolsAcrossServers deps st1 rest pbu of
                   (Inl e, st2) \<Rightarrow> (Inl e, st2)
                 | (Inr out, st2) \<Rightarrow> (Inr (lst # out), st2))))"

section \<open>Gateway client: the tool operation\<close>

text \<open>
  The parameters after \<open>parseParams\<close>. A string parameter is tested by
  truthiness: it is set when it is defined and not empty.
\<close>

record Params =
  param_tool :: "string option"
  param_args :: raw_args
  param_connect :: "string option"
  param_describe :: "string option"
  param_server :: "string option"

definition truthy :: "string option \<Rightarrow> bool" where
  "truthy v = (case v of None \<Rightarrow> False | Some s \<Rightarrow> s \<noteq> [])"

text \<open>The double quote of the messages.\<close>

definition dq :: string where
  "dq = [CHR 0x22]"

definition resolveSingleServer :: "McpRuntimeConfig \<Rightarrow> string \<Rightarrow> js_error + McpServerConfig" where
  "resolveSingleServer runtimeConfig tok =
     (case findServerByToken (servers runtimeConfig) tok of
        None \<Rightarrow> Inl (Error (''Unknown MCP server: '' @ tok))
      | Some srv \<Rightarrow>
          if \<not> enabled srv
          then Inl (Error (''MCP server '' @ dq @ server_name srv @ dq @ '' is disabled.''))
          else Inr srv)"

text \<open>
  Resolution of the tool named by \<open>params.tool\<close>: the candidate catalogs, the
  tools with exactly that name, and the target tool with its server. \<open>Inl\<close> is the
  thrown error.
\<close>

definition resolveTool ::
  "'w dependencies \<Rightarrow> 'w client_state \<Rightarrow> McpRuntimeConfig \<Rightarrow> Params \<Rightarrow> string
     \<Rightarrow> (js_error + McpToolDescriptor \<times> McpServerConfig) \<times> 'w client_state" where
  "resolveTool deps st runtimeConfig params tool =
     (let enabledServers = filter enabled (servers runtimeConfig);
          candidates =
            (if truthy (param_server params)
             then (case resolveSingleServer runtimeConfig (the (param_server params)) of
                     Inl e \<Rightarrow> (Inl e, st)
                   | Inr srv \<Rightarrow>
                       (case ensureServerTools deps st srv (config_proxyBaseUrl runtimeConfig) False of
                          (Inl e, st1) \<Rightarrow> (Inl e, st1)
                        | (Inr lst, st1) \<Rightarrow> (Inr [lst], st1)))
             else listToolsAcrossServers deps st enabledServers (config_proxyBaseUrl runtimeConfig))
      in (case candidates of
            (Inl e, st1) \<Rightarrow> (Inl e, st1)
          | (Inr candidateLists, st1) \<Rightarrow>
              (let allTools = concat (map tools candidateLists);
                   matched = filter (\<lambda>t. toolName t = tool) allTools
               in if length matched = 0
                  then (Inl (Error (''MCP tool not found: '' @ tool @ ''. ''
                          @ ''Use `search` first to discover available tools, then `describe` to inspect inputs.'')),
                        st1)
                  else if \<not> truthy (param_server params)
                          \<and> length (remdups (map serverId matched)) > 1
                  then (Inl (Error (''MCP tool '' @ dq @ tool @ dq @ '' is available on multiple servers (''
                          @ join '', '' (sort (remdups (map serverName matched)))
                          @ ''). Specify the server parameter.'')), st1)
                  else (let targetTool = hd matched
                        in (case resolveSingleServer runtimeConfig (serverId targetTool) of
                              Inl e \<Rightarrow> (Inl e, st1)
                            | Inr targetServer \<Rightarrow> (Inr (targetTool, targetServer), st1))))))"

definition toolsCallCall :: "McpRuntimeConfig \<Rightarrow> McpServerConfig \<Rightarrow> McpToolDescriptor \<Rightarrow> json \<Rightarrow> rpc_call" where
  "toolsCallCall runtimeConfig targetServer targetTool parsedArgs =
     \<lparr>call_server = targetServer, call_method = ''tools/call'',
      call_params = Some (JObj [(''name'', JStr (toolName targetTool)),
                                (''arguments'', parsedArgs)]),
      call_proxyBaseUrl = config_proxyBaseUrl runtimeConfig, expectResponse = True\<rparr>"

definition callTool ::
  "'w dependencies \<Rightarrow> 'w client_state \<Rightarrow> McpRuntimeConfig \<Rightarrow> McpServerConfig \<Rightarrow> McpToolDescriptor \<Rightarrow> json
     \<Rightarrow> (js_error + RpcCallResult) \<times> 'w client_state" where
  "callTool deps st runtimeConfig targetServer targetTool parsedArgs =
     (case issue deps st (toolsCallCall runtimeConfig targetServer targetTool parsedArgs) of
        (Inl e, st1) \<Rightarrow> (Inl e, st1)
      | (Inr None, st1) \<Rightarrow> (Inl (Error ''MCP tools/call returned no response.''), st1)
      | (Inr (Some callResult), st1) \<Rightarrow> (Inr callResult, st1))"

text \<open>
  The locals of \<open>execute\<close> that the \<open>catch\<close> reports: \<open>retryApplied\<close>,
  \<open>rpcMethod\<close> and \<open>rpcErrorCode\<close>.
\<close>

record locals =
  retryApplied :: bool
  rpcMethod :: "string option"
  rpcErrorCode :: "int option"

text \<open>
  The \<open>try\<close>/\<open>catch\<close> around the first \<open>callTool()\<close>: a recoverable error
  sets \<open>retryApplied\<close>, refreshes the catalog of the target server and calls once
  more; every other error is rethrown.
\<close>

definition callToolWithRetry ::
  "'w dependencies \<Rightarrow> 'w client_state \<Rightarrow> McpRuntimeConfig \<Rightarrow> McpServerConfig \<Rightarrow> McpToolDescriptor \<Rightarrow> json
     \<Rightarrow> locals \<Rightarrow> (js_error + RpcCallResult) \<times> locals \<times> 'w client_state" where
  "callToolWithRetry deps st runtimeConfig targetServer targetTool parsedArgs ls =
     (case callTool deps st runtimeConfig targetServer targetTool parsedArgs of
        (Inr callResult, st1) \<Rightarrow> (Inr callResult, ls, st1)
      | (Inl e, st1) \<Rightarrow>
          (let ls1 = ls\<lparr>rpcErrorCode := getRpcErrorCode e\<rparr>
           in if \<not> isRecoverableToolCallError deps e then (Inl e, ls1, st1)
              else (let ls2 = ls1\<lparr>retryApplied := True\<rparr>
                    in (case ensureServerTools deps st1 targetServer
                               (config_proxyBaseUrl runtimeConfig) True of
                          (Inl e2, st2) \<Rightarrow> (Inl e2, ls2, st2)
                        | (Inr lst, st2) \<Rightarrow>
                            (case callTool deps st2 runtimeConfig targetServer targetTool parsedArgs of
                               (r, st3) \<Rightarrow> (r, ls2, st3))))))"

text \<open>
  The result of \<open>execute\<close>: the details record, the payload of a successful call
  (from which the result text is rendered) and the text of a failure.
\<close>

record McpGatewayDetails =
  ok :: bool
  operation :: string
  details_server :: "string option"
  details_tool :: "string option"
  details_proxied :: "bool option"
  details_retryApplied :: bool
  details_rpcMethod :: "string option"
  errorCode :: "int option"
  error :: "string option"

record AgentToolResult =
  details :: McpGatewayDetails
  result_payload :: "json option"
  errorText :: "string option"

text \<open>
  The body of the \<open>try\<close> of \<open>execute\<close> on the path of the tool operation
  (\<open>params.connect\<close> unset, \<open>params.tool\<close> set).
\<close>

definition toolOperationBody ::
  "'w dependencies \<Rightarrow> 'w client_state \<Rightarrow> McpRuntimeConfig \<Rightarrow> Params
     \<Rightarrow> (js_error + McpServerConfig \<times> McpToolDescriptor \<times> RpcCallResult) \<times> locals \<times> 'w client_state" where
  "toolOperationBody deps st runtimeConfig params =
     (let ls0 = \<lparr>retryApplied = False, rpcMethod = None, rpcErrorCode = None\<rparr>
      in if length (servers runtimeConfig) = 0
         then (Inl (Error (''No MCP servers configured. Open '' @ integrationsCommandHint deps
                      @ '' to add one.'')), ls0, st)
         else (case resolveTool deps st runtimeConfig params (the (param_tool params)) of
                 (Inl e, st1) \<Rightarrow> (Inl e, ls0, st1)
               | (Inr (targetTool, targetServer), st1) \<Rightarrow>
                   (case parseCallArgs deps (param_args params) of
                      Inl e \<Rightarrow> (Inl e, ls0, st1)
                    | Inr parsedArgs \<Rightarrow>
                        (case callToolWithRetry deps st1 runtimeConfig targetServer targetTool parsedArgs
                                (ls0\<lparr>rpcMethod := Some ''tools/call''\<rparr>) of
                           (Inl e, ls, st2) \<Rightarrow> (Inl e, ls, st2)
                         | (Inr callResult, ls, st2) \<Rightarrow>
                             (Inr (targetServer, targetTool, callResult), ls, st2)))))"

text \<open>
  \<open>execute\<close> for the tool operation: the body above, and the \<open>catch\<close> that turns
  a thrown error into a failed result.
\<close>

definition executeTool ::
  "'w dependencies \<Rightarrow> 'w client_state \<Rightarrow> McpRuntimeConfig \<Rightarrow> Params
     \<Rightarrow> AgentToolResult \<times> 'w client_state" where
  "executeTool deps st runtimeConfig params =
     (case toolOperationBody deps st runtimeConfig params of
        (Inr (targetServer, targetTool, callResult), ls, st1) \<Rightarrow>
          (\<lparr>details =
              \<lparr>ok = True, operation = ''tool'',
               details_server = Some (server_name targetServer),
               details_tool = Some (toolName targetTool),
               details_proxied = Some (result_proxied callResult),
               details_retryApplied = retryApplied ls,
               details_rpcMethod = rpcMethod ls,
               errorCode = rpcErrorCode ls,
               error = None\<rparr>,
             result_payload = Some (rpc_result callResult),
             errorText = None\<rparr>, st1)
      | (Inl e, ls, st1) \<Rightarrow>
          (let message = withMcpRemediationHint deps (getErrorMessage deps e) ''tool''
           in (\<lparr>details =
                  \<lparr>ok = False, operation = ''tool'',
                   details_server = (case param_server params of
                                       Some s \<Rightarrow> Some s | None \<Rightarrow> param_connect params),
                   details_tool = (case param_tool params of
                                     Some t \<Rightarrow> Some t | None \<Rightarrow> param_describe params),
                   details_proxied = None,
                   details_retryApplied = retryApplied ls,
                   details_rpcMethod = rpcMethod ls,
                   errorCode = (case rpcErrorCode ls of
                                  None \<Rightarrow> getRpcErrorCode e | Some c \<Rightarrow> Some c),
                   error = Some message\<rparr>,
                 result_payload = None,
                 errorText = Some (''Error: '' @ message)\<rparr>, st1)))"

section \<open>Observing the calls of an operation\<close>

text \<open>
  The calls an operation issues are those its final log has beyond its initial log;
  \<open>countMethod m\<close> counts the calls of one JSON-RPC method among them.
\<close>

definition newCalls :: "'w client_state \<Rightarrow> 'w client_state \<Rightarrow> rpc_call list" where
  "newCalls st st' = drop (length (issued st)) (issued st')"

definition countMethod :: "string \<Rightarrow> rpc_call list \<Rightarrow> nat" where
  "countMethod m cs = length (filter (\<lambda>c. call_method c = m) cs)"

definition extends :: "'w client_state \<Rightarrow> 'w client_state \<Rightarrow> bool" where
  "extends st st' = (\<exists>new. issued st' = issued st @ new)"

section \<open>A concrete deployment\<close>

text \<open>
  The configuration of the repository's backend test, with a one-request window, and
  stand-ins for the runtime builtins that are defined on the inputs used below:
  \<open>new URL\<close> accepts the two absolute URLs and throws on every other string
  (such as \<open>null\<close>), \<open>JSON.parse\<close> reads the texts of the payloads listed
  and throws on every other text, \<open>parseInt\<close> reads the integers of small
  magnitude.
\<close>

definition test_config :: config where
  "test_config =
     \<lparr>OPENROUTER_API_KEY = ''server-openrouter-key'',
      OPENROUTER_BASE_URL = ''http://127.0.0.1:4001'',
      JAMAICA_API_BASE_URL = ''http://127.0.0.1:4002'',
      CONFIGURED_ALLOWED_ORIGINS = [''https://app.example''],
      REQUEST_BODY_LIMIT_BYTES = 1000000,
      RATE_LIMIT_WINDOW_MS = 60000,
      RATE_LIMIT_MAX_REQUESTS = 1\<rparr>"

text \<open>
  The text of a JSON value whose numbers are integers, used to write the bodies of
  the requests below.
\<close>

fun render :: "json \<Rightarrow> string" where
  "render JNull = ''null''"
| "render (JBool b) = (if b then ''true'' else ''false'')"
| "render (JNum r) = show_int (floor r)"
| "render (JStr s) = dq @ s @ dq"
| "render (JArr xs) = ''['' @ join '','' (map render xs) @ '']''"
| "render (JObj kvs) = ''{'' @ join '','' (map (\<lambda>kv. dq @ fst kv @ dq @ '':'' @ render (snd kv)) kvs) @ ''}''"

definition rpc_request :: "json option \<Rightarrow> string \<Rightarrow> json option \<Rightarrow> json" where
  "rpc_request id' meth params =
     JObj ([(''jsonrpc'', JStr ''2.0'')]
           @ (case id' of None \<Rightarrow> [] | Some i \<Rightarrow> [(''id'', i)])
           @ [(''method'', JStr meth)]
           @ (case params of None \<Rightarrow> [] | Some ps \<Rightarrow> [(''params'', ps)]))"

definition payload_not_curated :: json where
  "payload_not_curated = JObj [(''model'', JStr ''not-curated/x'')]"

definition payload_curated :: json where
  "payload_curated = JObj [(''model'', JStr ''google/gemini-3.1-pro-preview'')]"

definition payload_tools_list_no_id :: json where
  "payload_tools_list_no_id = rpc_request None ''tools/list'' None"

definition payload_initialized_no_id :: json where
  "payload_initialized_no_id = rpc_request None ''notifications/initialized'' None"

definition payload_call_without_arguments :: json where
  "payload_call_without_arguments =
     rpc_request (Some (JNum 1)) ''tools/call'' (Some (JObj [(''name'', JStr ''jm_list_companies'')]))"

definition payload_call_unknown_field :: json where
  "payload_call_unknown_field =
     rpc_request (Some (JNum 2)) ''tools/call''
       (Some (JObj [(''name'', JStr ''jm_get_company''),
                    (''arguments'', JObj [(''symbol'', JStr ''GK''), (''bogus'', JBool True)])]))"

definition payload_call_monthly :: json where
  "payload_call_monthly =
     rpc_request (Some (JNum 4)) ''tools/call''
       (Some (JObj [(''name'', JStr ''jm_get_statement''),
                    (''arguments'', JObj [(''symbol'', JStr ''GK''),
                                          (''frequency'', JStr ''Monthly''),
                                          (''statement_type'', JStr ''IS'')])]))"

definition payload_call_without_name :: json where
  "payload_call_without_name =
     rpc_request (Some (JNum 5)) ''tools/call'' (Some (JObj [(''arguments'', JObj [])]))"

definition payload_unknown_method :: json where
  "payload_unknown_method = rpc_request (Some (JNum 6)) ''resources/list'' None"

definition test_json_parse :: "string \<Rightarrow> json option" where
  "test_json_parse =
     map_of (map (\<lambda>v. (render v, v))
       [payload_not_curated, payload_curated, payload_tools_list_no_id, payload_initialized_no_id,
        payload_call_without_arguments, payload_call_unknown_field, payload_call_monthly,
        payload_call_without_name, payload_unknown_method, JArr [], JObj []])"

definition test_runtime :: runtime where
  "test_runtime =
     \<lparr>url_origin = map_of [(''https://evil.example'', ''https://evil.example''),
                           (''https://app.example'', ''https://app.example'')],
      json_parse = test_json_parse,
      json_stringify = (\<lambda>v. ''(json)''),
      parseInt10 = (\<lambda>v. case v of
                          JNum r \<Rightarrow> if r = of_int (floor r) \<and> \<bar>r\<bar> < 1000000 then Some (floor r) else None
                        | _ \<Rightarrow> None),
      date_valid = (\<lambda>s. True),
      currentYear = 2026,
      encodeURIComponent = (\<lambda>s. s)\<rparr>"

text \<open>An upstream that answers every request with status 200 and an empty JSON object.\<close>

definition test_fetch :: "upstream_request \<Rightarrow> fetch_result" where
  "test_fetch u = FetchResponse 200 [(''content-type'', ''application/json'')] (Some ''{}'')"

definition test_serveStatic :: "request \<Rightarrow> string \<Rightarrow> response" where
  "test_serveStatic req pathname = sendText 404 ''Not found''"

text \<open>A request with no headers and no body, to be completed field by field.\<close>

definition bare_request :: request where
  "bare_request =
     \<lparr>http_method = ''GET'', parsedUrl = Some (''/api/openrouter/v1/models'', []),
      origin = None, host = Some ''127.0.0.1:3000'', authorization = None, x_api_key = HUndefined,
      accept = None, x_forwarded_for = HUndefined, remoteAddress = Some ''127.0.0.1'',
      body_chunks = []\<rparr>"

definition post_request :: "string \<Rightarrow> json \<Rightarrow> request" where
  "post_request pathname v =
     bare_request\<lparr>http_method := ''POST'', parsedUrl := Some (pathname, []), body_chunks := [render v]\<rparr>"

definition null_origin_request :: request where
  "null_origin_request = bare_request\<lparr>origin := Some ''null''\<rparr>"

definition evil_origin_request :: request where
  "evil_origin_request = bare_request\<lparr>origin := Some ''https://evil.example''\<rparr>"

text \<open>The sentinel credential followed by a no-break space (the byte \<open>0xA0\<close>).\<close>

definition padded_sentinel :: string where
  "padded_sentinel = ''Bearer managed-openrouter-key'' @ [CHR 0xA0]"

definition padded_sentinel_request :: request where
  "padded_sentinel_request = bare_request\<lparr>authorization := Some padded_sentinel\<rparr>"

definition client_key_request :: request where
  "client_key_request =
     (post_request ''/api/openrouter/v1/chat/completions'' payload_not_curated)
       \<lparr>authorization := Some ''Bearer user-provided-key''\<rparr>"

definition sentinel_request :: request where
  "sentinel_request =
     (post_request ''/api/openrouter/v1/chat/completions'' payload_curated)
       \<lparr>authorization := Some ''Bearer managed-openrouter-key''\<rparr>"

section \<open>A concrete gateway client\<close>

text \<open>
  A scripted \<open>callJsonRpc\<close>: the outside world is the list of the outcomes still to
  come, and each call takes the next one (a call beyond the script is rejected).
  \<open>isRecord\<close> holds of objects, \<open>getErrorMessage\<close> reads the message of the
  error.
\<close>

type_synonym script = "(js_error + RpcCallResult option) list"

definition scripted :: "script \<Rightarrow> rpc_call \<Rightarrow> (js_error + RpcCallResult option) \<times> script" where
  "scripted w call =
     (case w of
        [] \<Rightarrow> (Inl (Error ''fetch failed''), [])
      | r # rest \<Rightarrow> (r, rest))"

definition test_dependencies :: "script dependencies" where
  "test_dependencies =
     \<lparr>callJsonRpc = scripted,
      isRecord = (\<lambda>j. case j of JObj kvs \<Rightarrow> True | _ \<Rightarrow> False),
      getErrorMessage = (\<lambda>e. case e of Error m \<Rightarrow> m | McpRpcError m c \<Rightarrow> m),
      integrationsCommandHint = ''/integrations'',
      APP_NAME = ''FloPro'',
      APP_VERSION = ''1.0.0'',
      JSON_parse = test_json_parse\<rparr>"

definition resolved :: "json \<Rightarrow> js_error + RpcCallResult option" where
  "resolved v = Inr (Some \<lparr>rpc_result = v, result_proxied = False, result_proxyBaseUrl = None\<rparr>)"

text \<open>A \<open>tools/list\<close> response with the single tool \<open>lookup\<close>.\<close>

definition lookup_catalog :: json where
  "lookup_catalog =
     JObj [(''jsonrpc'', JStr ''2.0''), (''id'', JStr ''1''),
           (''result'', JObj [(''tools'', JArr [JObj [(''name'', JStr ''lookup'')]])])]"

definition call_succeeded :: json where
  "call_succeeded =
     JObj [(''jsonrpc'', JStr ''2.0''), (''id'', JStr ''2''),
           (''result'', JObj [(''content'', JArr [JObj [(''type'', JStr ''text''),
                                                        (''text'', JStr ''ok'')]])])]"

text \<open>
  Two enabled servers; the display name of the first is the id of the second.
\<close>

definition server_alpha :: McpServerConfig where
  "server_alpha =
     \<lparr>server_id = ''alpha'', server_name = ''beta'', server_url = ''https://alpha.example/mcp'',
      enabled = True, token = None\<rparr>"

definition server_beta :: McpServerConfig where
  "server_beta =
     \<lparr>server_id = ''beta'', server_name = ''Second'', server_url = ''https://beta.example/mcp'',
      enabled = True, token = None\<rparr>"

definition two_servers :: McpRuntimeConfig where
  "two_servers = \<lparr>servers = [server_alpha, server_beta], config_proxyBaseUrl = None\<rparr>"

definition first_disabled :: McpRuntimeConfig where
  "first_disabled =
     \<lparr>servers = [server_alpha\<lparr>enabled := False\<rparr>, server_beta], config_proxyBaseUrl = None\<rparr>"

definition one_server :: McpRuntimeConfig where
  "one_server = \<lparr>servers = [server_beta], config_proxyBaseUrl = None\<rparr>"

definition lookup_descriptor :: McpToolDescriptor where
  "lookup_descriptor =
     \<lparr>serverId = ''beta'', serverName = ''Second'', serverUrl = ''https://beta.example/mcp'',
      toolName = ''lookup'', description = None, inputSchema = None\<rparr>"

definition lookup_params :: Params where
  "lookup_params =
     \<lparr>param_tool = Some ''lookup'', param_args = ArgsUndefined, param_connect = None,
      param_describe = None, param_server = None\<rparr>"

definition fresh_client :: "script \<Rightarrow> script client_state" where
  "fresh_client w = \<lparr>toolCache = Map.empty, world = w, issued = []\<rparr>"

text \<open>
  Scripts: the catalog fetch of one server (three calls), followed by the outcomes of
  \<open>tools/call\<close> and of a refresh.
\<close>

definition catalog_fetch :: script where
  "catalog_fetch = [resolved (JObj []), Inr None, resolved lookup_catalog]"

definition script_retry_succeeds :: script where
  "script_retry_succeeds =
     catalog_fetch @ [Inl (McpRpcError ''Tool not found: lookup'' (Some (- 32601)))]
       @ catalog_fetch @ [resolved call_succeeded]"

definition script_refresh_fails :: script where
  "script_refresh_fails =
     catalog_fetch @ [Inl (McpRpcError ''Tool not found: lookup'' (Some (- 32601))),
                      Inl (Error ''MCP request failed (503): Service Unavailable'')]"

definition script_success :: script where
  "script_success = catalog_fetch @ [resolved call_succeeded]"

definition script_retry_only :: script where
  "script_retry_only =
     [Inl (McpRpcError ''Tool not found: lookup'' (Some (- 32601)))]
       @ catalog_fetch @ [resolved call_succeeded]"

definition script_unauthorized :: script where
  "script_unauthorized = [Inl (Error ''MCP request failed (401): Unauthorized'')]"

definition script_refresh_fails_only :: script where
  "script_refresh_fails_only =
     [Inl (McpRpcError ''Tool not found: lookup'' (Some (- 32601))),
      Inl (Error ''MCP request failed (503): Service Unavailable'')]"

definition initial_locals :: locals where
  "initial_locals = \<lparr>retryApplied = False, rpcMethod = Some ''tools/call'', rpcErrorCode = None\<rparr>"

definition lookup_list :: ServerToolList where
  "lookup_list = \<lparr>server = server_beta, tools = [lookup_descriptor], proxied = False, proxyBaseUrl = None\<rparr>"

section \<open>Properties of the rate limiter\<close>

lemma isRateLimited_fresh:
  assumes "st ip = None \<or> (\<exists>w. st ip = Some w \<and> RATE_LIMIT_WINDOW_MS cfg \<le> nowMs - startedAt w)"
  shows "isRateLimited cfg ip nowMs st = (False, st(ip \<mapsto> \<lparr>startedAt = nowMs, count = 1\<rparr>))"
  using assms by (auto simp: isRateLimited_def split: option.splits)

lemma isRateLimited_second:
  assumes "st ip = Some \<lparr>startedAt = t0, count = 1\<rparr>" and "RATE_LIMIT_MAX_REQUESTS cfg = 1"
    and "later - t0 < RATE_LIMIT_WINDOW_MS cfg"
  shows "fst (isRateLimited cfg ip later st)"
  using assms by (auto simp: isRateLimited_def split: option.splits)

lemma cleanupRateLimitState_keeps:
  assumes "st ip = Some w" and "nowMs - startedAt w \<le> RATE_LIMIT_WINDOW_MS cfg * 2"
  shows "cleanupRateLimitState cfg nowMs st ip = Some w"
  using assms by (simp add: cleanupRateLimitState_def)

lemma handler_rate_limited:
  assumes "parsedUrl req = Some (p, q)" and "startsWith p ''/api/''"
    and "isApiOriginAllowed (url_origin rt) cfg req"
    and "fst (isRateLimited cfg (getClientIp req) nowMs (cleanupRateLimitState cfg nowMs st))"
  shows "fst (handler rt cfg fetch serveStatic nowMs req st)
           = sendJson 429 (errorPayload ''Rate limit exceeded. Try again later.'')"
  using assms by (auto simp: handler_def split: prod.splits)

text \<open>
  C7. Rate limiter with window \<open>W = RATE_LIMIT_WINDOW_MS\<close> and maximum
  \<open>N = RATE_LIMIT_MAX_REQUESTS\<close>, keyed by client IP. A request at \<open>nowMs\<close> from an
  IP that has no entry, or whose entry satisfies \<open>nowMs - startedAt \<ge> W\<close>, is accepted
  and the entry of that IP is reset to a window starting at \<open>nowMs\<close> with count 1.
  With \<open>N = 1\<close>, the next request of the same IP at a time \<open>later\<close> inside that
  window (\<open>later - nowMs < W\<close>) is limited, and the handler answers such an
  \<open>/api/\<close> request (its origin allowed) with status 429.
\<close>

theorem rate_limiter_window:
  assumes fresh: "st ip = None \<or> (\<exists>w. st ip = Some w \<and> RATE_LIMIT_WINDOW_MS cfg \<le> nowMs - startedAt w)"
  shows "isRateLimited cfg ip nowMs st = (False, st(ip \<mapsto> \<lparr>startedAt = nowMs, count = 1\<rparr>))
       \<and> (RATE_LIMIT_MAX_REQUESTS cfg = 1 \<and> later - nowMs < RATE_LIMIT_WINDOW_MS cfg \<longrightarrow>
            fst (isRateLimited cfg ip later (snd (isRateLimited cfg ip nowMs st)))
            \<and> (\<forall>req p q. parsedUrl req = Some (p, q) \<and> startsWith p ''/api/''
                  \<and> isApiOriginAllowed (url_origin rt) cfg req \<and> getClientIp req = ip
                  \<and> 0 \<le> RATE_LIMIT_WINDOW_MS cfg \<longrightarrow>
                fst (handler rt cfg fetch serveStatic later req (snd (isRateLimited cfg ip nowMs st)))
                  = sendJson 429 (errorPayload ''Rate limit exceeded. Try again later.'')))"
proof -
  let ?st1 = "st(ip \<mapsto> \<lparr>startedAt = nowMs, count = 1\<rparr>)"
  have first: "isRateLimited cfg ip nowMs st = (False, ?st1)"
    using fresh by (rule isRateLimited_fresh)
  have second: "fst (isRateLimited cfg ip later ?st1)"
    if "RATE_LIMIT_MAX_REQUESTS cfg = 1" and "later - nowMs < RATE_LIMIT_WINDOW_MS cfg"
    using that by (intro isRateLimited_second[where ?t0.0 = nowMs]) auto
  have gate: "fst (handler rt cfg fetch serveStatic later req ?st1)
                = sendJson 429 (errorPayload ''Rate limit exceeded. Try again later.'')"
    if n: "RATE_LIMIT_MAX_REQUESTS cfg = 1" and w: "later - nowMs < RATE_LIMIT_WINDOW_MS cfg"
      and r: "parsedUrl req = Some (p, q)" "startsWith p ''/api/''"
        "isApiOriginAllowed (url_origin rt) cfg req" "getClientIp req = ip"
      and pos: "0 \<le> RATE_LIMIT_WINDOW_MS cfg"
    for req p q
  proof -
    have kept: "cleanupRateLimitState cfg later ?st1 ip = Some \<lparr>startedAt = nowMs, count = 1\<rparr>"
      using w pos by (intro cleanupRateLimitState_keeps) auto
    have "fst (isRateLimited cfg ip later (cleanupRateLimitState cfg later ?st1))"
      using kept n w by (intro isRateLimited_second[where ?t0.0 = nowMs]) auto
    then show ?thesis using r by (intro handler_rate_limited[where p = p and q = q]) auto
  qed
  show ?thesis using first second gate by (simp del: fun_upd_apply)
qed

theorem rate_limiter_window_witness:
  "isRateLimited test_config ''127.0.0.1'' 0 Map.empty
     = (False, [''127.0.0.1'' \<mapsto> \<lparr>startedAt = 0, count = 1\<rparr>])
   \<and> fst (isRateLimited test_config ''127.0.0.1'' 1000
            (snd (isRateLimited test_config ''127.0.0.1'' 0 Map.empty)))
   \<and> fst (handler test_runtime test_config test_fetch test_serveStatic 1000 bare_request
            (snd (isRateLimited test_config ''127.0.0.1'' 0 Map.empty)))
       = sendJson 429 (errorPayload ''Rate limit exceeded. Try again later.'')"
proof -
  have fresh: "(Map.empty :: rate_limit_state) ''127.0.0.1'' = None
     \<or> (\<exists>w. (Map.empty :: rate_limit_state) ''127.0.0.1'' = Some w
            \<and> RATE_LIMIT_WINDOW_MS test_config \<le> 0 - startedAt w)"
    by simp
  have window: "RATE_LIMIT_MAX_REQUESTS test_config = 1
     \<and> (1000::int) - 0 < RATE_LIMIT_WINDOW_MS test_config"
    by (simp add: test_config_def)
  have req: "parsedUrl bare_request = Some (''/api/openrouter/v1/models'', [])
     \<and> startsWith ''/api/openrouter/v1/models'' ''/api/''
     \<and> isApiOriginAllowed (url_origin test_runtime) test_config bare_request
     \<and> getClientIp bare_request = ''127.0.0.1''
     \<and> 0 \<le> RATE_LIMIT_WINDOW_MS test_config"
    by code_simp
  show ?thesis
    using rate_limiter_window[where later = 1000 and rt = test_runtime and fetch = test_fetch
        and serveStatic = test_serveStatic, OF fresh] window req
    by blast
qed

section \<open>Properties of the origin check\<close>

lemma statusCode_sendJson [simp]: "statusCode (sendJson c j) = c"
  by (simp add: sendJson_def)

lemma body_sendJson [simp]: "body (sendJson c j) = JsonBody j"
  by (simp add: sendJson_def)

lemma sendJson_eq_iff: "sendJson a j = sendJson b k \<longleftrightarrow> a = b \<and> j = k"
  by (auto simp: sendJson_def)

lemma forwardUpstream_json:
  assumes "fst (forwardUpstream cfg fetch req rp m b) = sendJson c j"
  shows "c = 502"
proof (cases "fetch \<lparr>target = OPENROUTER_BASE_URL cfg @ rp, fetch_method = m, fetch_body = b,
             fetch_headers =
               [(''Authorization'', ''Bearer '' @ OPENROUTER_API_KEY cfg),
                (''Content-Type'', ''application/json''),
                (''Accept'', (case accept req of
                                Some a \<Rightarrow> if a = [] then ''application/json'' else a
                              | None \<Rightarrow> ''application/json''))]\<rparr>")
  case (FetchThrows msg)
  with assms have "statusCode (sendJson 502 (errorPayload msg)) = statusCode (sendJson c j)"
    by (simp add: forwardUpstream_def)
  then show ?thesis by simp
next
  case (FetchResponse status hs bd)
  with assms have "body \<lparr>statusCode = status, headers = copyAllowedResponseHeaders hs,
                body = (case bd of None \<Rightarrow> EmptyBody | Some stream \<Rightarrow> StreamBody stream)\<rparr>
       = body (sendJson c j)"
    by (simp add: forwardUpstream_def)
  then show ?thesis by (cases bd) simp_all
qed

lemma proxy_json_status:
  assumes "fst (handleOpenRouterProxy rt cfg fetch req p q) = sendJson c j"
  shows "c \<noteq> 403"
proof
  assume c: "c = 403"
  have "statusCode (fst (handleOpenRouterProxy rt cfg fetch req p q)) = 403"
    using assms c by simp
  moreover have "\<And>rp m b. fst (forwardUpstream cfg fetch req rp m b) \<noteq> sendJson 403 j"
    using forwardUpstream_json by fastforce
  ultimately show False
    using assms c
    by (simp add: handleOpenRouterProxy_def Let_def sendJson_eq_iff
          split: if_splits option.splits sum.splits)
qed

lemma dispatch_status:
  "statusCode (fst (dispatchManagedMcpRpc rt cfg fetch payload)) \<in> {200, 204, 400, 404}"
  by (simp add: dispatchManagedMcpRpc_def Let_def split: prod.splits sum.splits)

lemma mcp_status:
  "statusCode (fst (handleManagedMcpRpc rt cfg fetch req)) \<in> {200, 204, 400, 404, 405, 413}"
  using dispatch_status[of rt cfg fetch]
  by (auto simp add: handleManagedMcpRpc_def split: sum.splits)

lemma route_api_not_403:
  assumes "startsWith p ''/api/''"
  shows "fst (routeRequest rt cfg fetch serveStatic req p q) \<noteq> sendJson 403 j"
proof
  assume a: "fst (routeRequest rt cfg fetch serveStatic req p q) = sendJson 403 j"
  have nh: "p \<noteq> ''/healthz''" using assms by (auto simp: startsWith_def)
  show False
  proof (cases "startsWith p ''/api/openrouter/v1''")
    case True
    with a nh show False using proxy_json_status[of rt cfg fetch req p q 403 j]
      by (simp add: routeRequest_def)
  next
    case False
    show False
    proof (cases "p = ''/api/mcp/jamaica-market''")
      case True
      with a nh False have "statusCode (fst (handleManagedMcpRpc rt cfg fetch req)) = 403"
        by (simp add: routeRequest_def)
      with mcp_status[of rt cfg fetch req] show False by simp
    next
      case np: False
      with a nh False assms have "statusCode (sendJson 404 (errorPayload ''Unknown API route'')) = statusCode (sendJson 403 j)"
        by (simp add: routeRequest_def)
      then show False by simp
    qed
  qed
qed

text \<open>
  C10. An \<open>Origin\<close> header that is present but does not parse as a URL (\<open>new URL\<close>
  throws on its trimmed value) is treated like an absent one: the origin check
  passes, whatever the allow-list, and the handler's response to such an \<open>/api/\<close>
  request is never the 403 rejection of the origin check.
\<close>

theorem unparsable_origin_passes:
  assumes "origin req = Some v" and "url_origin rt (trim v) = None"
  shows "isApiOriginAllowed (url_origin rt) cfg req
     \<and> (\<forall>p q. parsedUrl req = Some (p, q) \<and> startsWith p ''/api/'' \<longrightarrow>
           fst (handler rt cfg fetch serveStatic nowMs req st)
             \<noteq> sendJson 403 (errorPayload ''Origin not allowed''))"
proof -
  have allowed: "isApiOriginAllowed (url_origin rt) cfg req"
    using assms by (simp add: isApiOriginAllowed_def normalizeOrigin_def Let_def)
  have "fst (handler rt cfg fetch serveStatic nowMs req st)
             \<noteq> sendJson 403 (errorPayload ''Origin not allowed'')"
    if pu: "parsedUrl req = Some (p, q)" and api: "startsWith p ''/api/''" for p q
  proof (cases "fst (isRateLimited cfg (getClientIp req) nowMs (cleanupRateLimitState cfg nowMs st))")
    case True
    have "fst (handler rt cfg fetch serveStatic nowMs req st)
           = sendJson 429 (errorPayload ''Rate limit exceeded. Try again later.'')"
      using pu api allowed True by (rule handler_rate_limited)
    moreover have "statusCode (sendJson 429 (errorPayload ''Rate limit exceeded. Try again later.''))
       \<noteq> statusCode (sendJson 403 (errorPayload ''Origin not allowed''))" by simp
    ultimately show ?thesis by metis
  next
    case False
    obtain limited st2 where rl:
      "isRateLimited cfg (getClientIp req) nowMs (cleanupRateLimitState cfg nowMs st) = (limited, st2)"
      by (cases "isRateLimited cfg (getClientIp req) nowMs (cleanupRateLimitState cfg nowMs st)")
    with False have "\<not> limited" by simp
    then have "fst (handler rt cfg fetch serveStatic nowMs req st)
        = fst (routeRequest rt cfg fetch serveStatic req p q)"
      using pu api allowed rl by (simp add: handler_def Let_def split: prod.splits)
    then show ?thesis using route_api_not_403[OF api] by simp
  qed
  with allowed show ?thesis by blast
qed

text \<open>
  C8, as amended. A request without an \<open>Origin\<close> header passes the origin check.
  If the header resolves to a non-empty origin string, the check passes exactly when
  that origin is in the configured allow-list or, with no allow-list configured, when
  it is \<open>https://\<close> or \<open>http://\<close> followed by the trimmed \<open>Host\<close> header. An
  \<open>/api/\<close> request that fails the check is answered 403 before the rate limiter
  and sends nothing upstream.
\<close>

theorem origin_allow_list:
  "(origin req = None \<longrightarrow> isApiOriginAllowed (url_origin rt) cfg req)
   \<and> (\<forall>og. normalizeOrigin (url_origin rt) (origin req) = Some og \<and> og \<noteq> [] \<longrightarrow>
         (CONFIGURED_ALLOWED_ORIGINS cfg \<noteq> [] \<longrightarrow>
            (isApiOriginAllowed (url_origin rt) cfg req \<longleftrightarrow> og \<in> set (CONFIGURED_ALLOWED_ORIGINS cfg)))
       \<and> (CONFIGURED_ALLOWED_ORIGINS cfg = [] \<longrightarrow>
            (isApiOriginAllowed (url_origin rt) cfg req \<longleftrightarrow>
               (\<exists>h. host req = Some h \<and> trim h \<noteq> []
                    \<and> (og = ''https://'' @ trim h \<or> og = ''http://'' @ trim h)))))
   \<and> (\<forall>p q. \<not> isApiOriginAllowed (url_origin rt) cfg req
            \<and> parsedUrl req = Some (p, q) \<and> startsWith p ''/api/'' \<longrightarrow>
          handler rt cfg fetch serveStatic nowMs req st
            = (sendJson 403 (errorPayload ''Origin not allowed''), cleanupRateLimitState cfg nowMs st, []))"
proof (intro conjI allI impI)
  assume "origin req = None"
  then show "isApiOriginAllowed (url_origin rt) cfg req"
    by (simp add: isApiOriginAllowed_def normalizeOrigin_def)
next
  fix og
  assume "normalizeOrigin (url_origin rt) (origin req) = Some og \<and> og \<noteq> []"
    and "CONFIGURED_ALLOWED_ORIGINS cfg \<noteq> []"
  then show "isApiOriginAllowed (url_origin rt) cfg req \<longleftrightarrow> og \<in> set (CONFIGURED_ALLOWED_ORIGINS cfg)"
    by (simp add: isApiOriginAllowed_def getAllowedOrigins_def)
next
  fix og
  assume "normalizeOrigin (url_origin rt) (origin req) = Some og \<and> og \<noteq> []"
    and "CONFIGURED_ALLOWED_ORIGINS cfg = []"
  then show "isApiOriginAllowed (url_origin rt) cfg req \<longleftrightarrow>
               (\<exists>h. host req = Some h \<and> trim h \<noteq> []
                    \<and> (og = ''https://'' @ trim h \<or> og = ''http://'' @ trim h))"
    by (auto simp: isApiOriginAllowed_def getAllowedOrigins_def Let_def split: option.splits)
next
  fix p q
  assume "\<not> isApiOriginAllowed (url_origin rt) cfg req
            \<and> parsedUrl req = Some (p, q) \<and> startsWith p ''/api/''"
  then show "handler rt cfg fetch serveStatic nowMs req st
            = (sendJson 403 (errorPayload ''Origin not allowed''), cleanupRateLimitState cfg nowMs st, [])"
    by (simp add: handler_def Let_def)
qed

text \<open>The origin check at concrete requests.\<close>

theorem unparsable_origin_passes_witness:
  "isApiOriginAllowed (url_origin test_runtime) test_config null_origin_request
   \<and> fst (handler test_runtime test_config test_fetch test_serveStatic 0 null_origin_request Map.empty)
       \<noteq> sendJson 403 (errorPayload ''Origin not allowed'')"
proof -
  have h1: "origin null_origin_request = Some ''null''"
    by (simp add: null_origin_request_def)
  have h2: "url_origin test_runtime (trim ''null'') = None"
    by code_simp
  have h3: "parsedUrl null_origin_request = Some (''/api/openrouter/v1/models'', [])
     \<and> startsWith ''/api/openrouter/v1/models'' ''/api/''"
    by code_simp
  show ?thesis
    using unparsable_origin_passes[OF h1 h2, where cfg = test_config and fetch = test_fetch
        and serveStatic = test_serveStatic and nowMs = 0 and st = Map.empty] h3
    by blast
qed

theorem origin_present_not_rejected:
  "origin null_origin_request = Some ''null''
   \<and> ''null'' \<notin> set (CONFIGURED_ALLOWED_ORIGINS test_config)
   \<and> normalizeOrigin (url_origin test_runtime) (origin null_origin_request) = None
   \<and> isApiOriginAllowed (url_origin test_runtime) test_config null_origin_request
   \<and> statusCode (fst (handler test_runtime test_config test_fetch test_serveStatic 0
                         null_origin_request Map.empty)) = 200"
  by code_simp

theorem origin_allow_list_witness:
  "isApiOriginAllowed (url_origin test_runtime) test_config bare_request
   \<and> \<not> isApiOriginAllowed (url_origin test_runtime) test_config evil_origin_request
   \<and> handler test_runtime test_config test_fetch test_serveStatic 0 evil_origin_request Map.empty
       = (sendJson 403 (errorPayload ''Origin not allowed''),
          cleanupRateLimitState test_config 0 Map.empty, [])
   \<and> isApiOriginAllowed (url_origin test_runtime) (test_config\<lparr>CONFIGURED_ALLOWED_ORIGINS := []\<rparr>)
        (bare_request\<lparr>origin := Some ''https://app.example'', host := Some ''app.example''\<rparr>)"
proof -
  have a1: "origin bare_request = None"
    by (simp add: bare_request_def)
  have a2: "normalizeOrigin (url_origin test_runtime) (origin evil_origin_request)
              = Some ''https://evil.example'' \<and> ''https://evil.example'' \<noteq> []
            \<and> CONFIGURED_ALLOWED_ORIGINS test_config \<noteq> []
            \<and> ''https://evil.example'' \<notin> set (CONFIGURED_ALLOWED_ORIGINS test_config)"
    by code_simp
  have a3: "parsedUrl evil_origin_request = Some (''/api/openrouter/v1/models'', [])
            \<and> startsWith ''/api/openrouter/v1/models'' ''/api/''"
    by code_simp
  let ?r = "bare_request\<lparr>origin := Some ''https://app.example'', host := Some ''app.example''\<rparr>"
  let ?c = "test_config\<lparr>CONFIGURED_ALLOWED_ORIGINS := []\<rparr>"
  have a4: "normalizeOrigin (url_origin test_runtime) (origin ?r) = Some ''https://app.example''
            \<and> ''https://app.example'' \<noteq> [] \<and> CONFIGURED_ALLOWED_ORIGINS ?c = []
            \<and> host ?r = Some ''app.example'' \<and> trim ''app.example'' \<noteq> []
            \<and> ''https://app.example'' = ''https://'' @ trim ''app.example''"
    by code_simp
  have c1: "isApiOriginAllowed (url_origin test_runtime) test_config bare_request"
    using origin_allow_list[where req = bare_request and rt = test_runtime and cfg = test_config] a1
    by blast
  have c2: "\<not> isApiOriginAllowed (url_origin test_runtime) test_config evil_origin_request"
    using origin_allow_list[where req = evil_origin_request and rt = test_runtime and cfg = test_config] a2
    by blast
  have c3: "handler test_runtime test_config test_fetch test_serveStatic 0 evil_origin_request Map.empty
       = (sendJson 403 (errorPayload ''Origin not allowed''),
          cleanupRateLimitState test_config 0 Map.empty, [])"
    using origin_allow_list[where req = evil_origin_request and rt = test_runtime and cfg = test_config
        and fetch = test_fetch and serveStatic = test_serveStatic and nowMs = 0 and st = Map.empty] c2 a3
    by blast
  have c4: "isApiOriginAllowed (url_origin test_runtime) ?c ?r"
    using origin_allow_list[where req = ?r and rt = test_runtime and cfg = ?c] a4
    by blast
  from c1 c2 c3 c4 show ?thesis by blast
qed

section \<open>Properties of the LLM passthrough\<close>

lemma hasUnmanaged_iff:
  "hasUnmanagedClientCredentials req \<longleftrightarrow>
     (\<exists>a. authorization req = Some a \<and> trim a \<noteq> [] \<and> trim a \<noteq> ''Bearer '' @ MANAGED_OPENROUTER_API_KEY_SENTINEL)
     \<or> (\<exists>x. x_api_key req = HString x \<and> trim x \<noteq> [] \<and> trim x \<noteq> MANAGED_OPENROUTER_API_KEY_SENTINEL)
     \<or> (\<exists>vs. x_api_key req = HArray vs
           \<and> (\<exists>v\<in>set vs. trim v \<noteq> [] \<and> trim v \<noteq> MANAGED_OPENROUTER_API_KEY_SENTINEL))"
  by (auto simp: hasUnmanagedClientCredentials_def Let_def list_ex_iff split: option.splits header_value.splits)

lemma proxy_rejects_unmanaged:
  "hasUnmanagedClientCredentials req \<Longrightarrow>
     handleOpenRouterProxy rt cfg fetch req p q
       = (sendJson 400 (errorPayload unmanagedCredentialsMessage), [])"
  by (simp add: handleOpenRouterProxy_def Let_def)

lemma forwardUpstream_sent:
  "u \<in> set (snd (forwardUpstream cfg fetch req rp m b)) \<Longrightarrow>
     fetch_headers u =
       [(''Authorization'', ''Bearer '' @ OPENROUTER_API_KEY cfg),
        (''Content-Type'', ''application/json''),
        (''Accept'', (case accept req of
                        Some a \<Rightarrow> if a = [] then ''application/json'' else a
                      | None \<Rightarrow> ''application/json''))]"
  by (auto simp: forwardUpstream_def Let_def split: fetch_result.splits)

lemma proxy_sent:
  assumes "u \<in> set (snd (handleOpenRouterProxy rt cfg fetch req p q))"
  shows "\<exists>rp m b. u \<in> set (snd (forwardUpstream cfg fetch req rp m b))"
  using assms
  by (auto simp: handleOpenRouterProxy_def Let_def split: if_splits option.splits sum.splits)

lemma forwardUpstream_cred_indep:
  "forwardUpstream cfg fetch (req\<lparr>authorization := a, x_api_key := x\<rparr>) rp m b
     = forwardUpstream cfg fetch req rp m b"
  by (simp add: forwardUpstream_def)

lemma proxy_cred_indep:
  assumes "\<not> hasUnmanagedClientCredentials req"
    and "\<not> hasUnmanagedClientCredentials (req\<lparr>authorization := a, x_api_key := x\<rparr>)"
  shows "handleOpenRouterProxy rt cfg fetch (req\<lparr>authorization := a, x_api_key := x\<rparr>) p q
     = handleOpenRouterProxy rt cfg fetch req p q"
  using assms
  by (simp add: handleOpenRouterProxy_def Let_def forwardUpstream_cred_indep readRequestBody_def
      cong: option.case_cong sum.case_cong if_cong)

text \<open>
  C1, as amended. If the \<open>Authorization\<close> header, trimmed of surrounding white
  space, is non-empty and differs from \<open>Bearer\<close> followed by the sentinel, or the
  \<open>x-api-key\<close> header, trimmed, is non-empty and differs from the sentinel, the
  passthrough handler answers 400 and sends nothing upstream. Every request it does
  send upstream carries exactly the headers \<open>Authorization: Bearer\<close>
  \<open>OPENROUTER_API_KEY\<close>, \<open>Content-Type\<close> and \<open>Accept\<close>, so never the sentinel
  when the server key differs from it; and two requests that differ only in their
  \<open>Authorization\<close> and \<open>x-api-key\<close> headers and both pass the check are handled
  identically.
\<close>

theorem passthrough_credentials:
  "((\<exists>a. authorization req = Some a \<and> trim a \<noteq> []
          \<and> trim a \<noteq> ''Bearer '' @ MANAGED_OPENROUTER_API_KEY_SENTINEL)
      \<or> (\<exists>x. x_api_key req = HString x \<and> trim x \<noteq> []
          \<and> trim x \<noteq> MANAGED_OPENROUTER_API_KEY_SENTINEL)
     \<longrightarrow> handleOpenRouterProxy rt cfg fetch req p q
           = (sendJson 400 (errorPayload unmanagedCredentialsMessage), []))
   \<and> (\<forall>u \<in> set (snd (handleOpenRouterProxy rt cfg fetch req p q)).
         fetch_headers u =
           [(''Authorization'', ''Bearer '' @ OPENROUTER_API_KEY cfg),
            (''Content-Type'', ''application/json''),
            (''Accept'', (case accept req of
                            Some a \<Rightarrow> if a = [] then ''application/json'' else a
                          | None \<Rightarrow> ''application/json''))]
         \<and> (OPENROUTER_API_KEY cfg \<noteq> MANAGED_OPENROUTER_API_KEY_SENTINEL \<longrightarrow>
              map_of (fetch_headers u) ''Authorization''
                \<noteq> Some (''Bearer '' @ MANAGED_OPENROUTER_API_KEY_SENTINEL)))
   \<and> (\<forall>a x. \<not> hasUnmanagedClientCredentials req
          \<and> \<not> hasUnmanagedClientCredentials (req\<lparr>authorization := a, x_api_key := x\<rparr>) \<longrightarrow>
        handleOpenRouterProxy rt cfg fetch (req\<lparr>authorization := a, x_api_key := x\<rparr>) p q
          = handleOpenRouterProxy rt cfg fetch req p q)"
proof (intro conjI ballI allI impI)
  assume "(\<exists>a. authorization req = Some a \<and> trim a \<noteq> []
          \<and> trim a \<noteq> ''Bearer '' @ MANAGED_OPENROUTER_API_KEY_SENTINEL)
      \<or> (\<exists>x. x_api_key req = HString x \<and> trim x \<noteq> []
          \<and> trim x \<noteq> MANAGED_OPENROUTER_API_KEY_SENTINEL)"
  then have "hasUnmanagedClientCredentials req"
    unfolding hasUnmanaged_iff by blast
  then show "handleOpenRouterProxy rt cfg fetch req p q
           = (sendJson 400 (errorPayload unmanagedCredentialsMessage), [])"
    by (rule proxy_rejects_unmanaged)
next
  fix u assume u: "u \<in> set (snd (handleOpenRouterProxy rt cfg fetch req p q))"
  from proxy_sent[OF u] obtain rp m b where "u \<in> set (snd (forwardUpstream cfg fetch req rp m b))"
    by blast
  then show h: "fetch_headers u =
           [(''Authorization'', ''Bearer '' @ OPENROUTER_API_KEY cfg),
            (''Content-Type'', ''application/json''),
            (''Accept'', (case accept req of
                            Some a \<Rightarrow> if a = [] then ''application/json'' else a
                          | None \<Rightarrow> ''application/json''))]"
    by (rule forwardUpstream_sent)
  assume "OPENROUTER_API_KEY cfg \<noteq> MANAGED_OPENROUTER_API_KEY_SENTINEL"
  with h show "map_of (fetch_headers u) ''Authorization''
                \<noteq> Some (''Bearer '' @ MANAGED_OPENROUTER_API_KEY_SENTINEL)"
    by simp
next
  fix a x
  assume "\<not> hasUnmanagedClientCredentials req
          \<and> \<not> hasUnmanagedClientCredentials (req\<lparr>authorization := a, x_api_key := x\<rparr>)"
  then show "handleOpenRouterProxy rt cfg fetch (req\<lparr>authorization := a, x_api_key := x\<rparr>) p q
          = handleOpenRouterProxy rt cfg fetch req p q"
    by (simp add: proxy_cred_indep)
qed

text \<open>
  C2, as amended. For a POST to the chat-completions or responses route whose body is
  read within the byte cap and parses as JSON: if the \<open>model\<close> field is not a
  curated model id, the handler answers 400 and sends nothing upstream, and for a
  request that passed the credential check the message lists the allowed models;
  if the model is curated and the request passed the credential check, the request
  is forwarded upstream, once.
\<close>

theorem passthrough_model_allow_list:
  assumes "http_method req = ''POST''"
    and "takeWhile (\<lambda>c. c \<noteq> CHR ''?'') (normalizeOpenRouterPath p q) = ''/chat/completions''
         \<or> takeWhile (\<lambda>c. c \<noteq> CHR ''?'') (normalizeOpenRouterPath p q) = ''/responses''"
    and "readRequestBody req (REQUEST_BODY_LIMIT_BYTES cfg) = Inr buf"
    and "parseJsonBody rt buf = Inr parsed"
  shows "(\<not> isOpenRouterCuratedModelId (string_or_empty (get_prop parsed ''model'')) \<longrightarrow>
            statusCode (fst (handleOpenRouterProxy rt cfg fetch req p q)) = 400
          \<and> snd (handleOpenRouterProxy rt cfg fetch req p q) = []
          \<and> (\<not> hasUnmanagedClientCredentials req \<longrightarrow>
               fst (handleOpenRouterProxy rt cfg fetch req p q)
                 = sendJson 400 (errorPayload modelNotAllowedMessage)))
       \<and> (isOpenRouterCuratedModelId (string_or_empty (get_prop parsed ''model''))
            \<and> \<not> hasUnmanagedClientCredentials req \<longrightarrow>
            handleOpenRouterProxy rt cfg fetch req p q
              = forwardUpstream cfg fetch req (normalizeOpenRouterPath p q) ''POST''
                  (Some (json_stringify rt parsed))
          \<and> length (snd (handleOpenRouterProxy rt cfg fetch req p q)) = 1)"
proof -
  have rules: "OPENROUTER_ROUTE_RULES (takeWhile (\<lambda>c. c \<noteq> CHR ''?'') (normalizeOpenRouterPath p q))
      = Some [''POST'']"
    using assms(2) by (auto simp: OPENROUTER_ROUTE_RULES_def)
  have one: "length (snd (forwardUpstream cfg fetch req rp m b)) = 1" for rp m b
    by (simp add: forwardUpstream_def Let_def split: fetch_result.splits)
  show ?thesis
    using assms rules one
    by (auto simp: handleOpenRouterProxy_def Let_def sendJson_def)
qed

text \<open>The credential and model checks at concrete requests.\<close>

theorem padded_sentinel_forwarded:
  "authorization padded_sentinel_request = Some (''Bearer managed-openrouter-key'' @ [CHR 0xA0])
   \<and> ''Bearer managed-openrouter-key'' @ [CHR 0xA0] \<noteq> []
   \<and> ''Bearer managed-openrouter-key'' @ [CHR 0xA0] \<noteq> ''Bearer '' @ MANAGED_OPENROUTER_API_KEY_SENTINEL
   \<and> statusCode (fst (handleOpenRouterProxy test_runtime test_config test_fetch
                         padded_sentinel_request ''/api/openrouter/v1/models'' [])) = 200
   \<and> map target (snd (handleOpenRouterProxy test_runtime test_config test_fetch
                         padded_sentinel_request ''/api/openrouter/v1/models'' []))
       = [''http://127.0.0.1:4001/models'']"
  by code_simp

theorem passthrough_credentials_witness:
  "handleOpenRouterProxy test_runtime test_config test_fetch client_key_request
       ''/api/openrouter/v1/chat/completions'' []
     = (sendJson 400 (errorPayload unmanagedCredentialsMessage), [])
   \<and> map (\<lambda>u. map_of (fetch_headers u) ''Authorization'')
         (snd (handleOpenRouterProxy test_runtime test_config test_fetch sentinel_request
                 ''/api/openrouter/v1/chat/completions'' []))
       = [Some ''Bearer server-openrouter-key'']
   \<and> handleOpenRouterProxy test_runtime test_config test_fetch
         (sentinel_request\<lparr>authorization := None, x_api_key := HUndefined\<rparr>)
         ''/api/openrouter/v1/chat/completions'' []
       = handleOpenRouterProxy test_runtime test_config test_fetch sentinel_request
           ''/api/openrouter/v1/chat/completions'' []"
proof -
  let ?p = "''/api/openrouter/v1/chat/completions''"
  have a1: "authorization client_key_request = Some ''Bearer user-provided-key''
     \<and> trim ''Bearer user-provided-key'' \<noteq> []
     \<and> trim ''Bearer user-provided-key'' \<noteq> ''Bearer '' @ MANAGED_OPENROUTER_API_KEY_SENTINEL"
    by code_simp
  have c1: "handleOpenRouterProxy test_runtime test_config test_fetch client_key_request ?p []
     = (sendJson 400 (errorPayload unmanagedCredentialsMessage), [])"
    using passthrough_credentials[where req = client_key_request and rt = test_runtime
        and cfg = test_config and fetch = test_fetch and p = ?p and q = "[]"] a1
    by blast
  have len: "length (snd (handleOpenRouterProxy test_runtime test_config test_fetch sentinel_request ?p [])) = 1"
    by code_simp
  then obtain u where u: "snd (handleOpenRouterProxy test_runtime test_config test_fetch sentinel_request ?p []) = [u]"
    by (cases "snd (handleOpenRouterProxy test_runtime test_config test_fetch sentinel_request ?p [])") auto
  have key: "OPENROUTER_API_KEY test_config = ''server-openrouter-key''"
    by (simp add: test_config_def)
  have "map_of (fetch_headers u) ''Authorization'' = Some (''Bearer '' @ OPENROUTER_API_KEY test_config)"
    using passthrough_credentials[where req = sentinel_request and rt = test_runtime
        and cfg = test_config and fetch = test_fetch and p = ?p and q = "[]"] u
    by simp
  with u key have c2: "map (\<lambda>u. map_of (fetch_headers u) ''Authorization'')
         (snd (handleOpenRouterProxy test_runtime test_config test_fetch sentinel_request ?p []))
       = [Some ''Bearer server-openrouter-key'']"
    by simp
  have a3: "\<not> hasUnmanagedClientCredentials sentinel_request
     \<and> \<not> hasUnmanagedClientCredentials (sentinel_request\<lparr>authorization := None, x_api_key := HUndefined\<rparr>)"
    by code_simp
  have c3: "handleOpenRouterProxy test_runtime test_config test_fetch
         (sentinel_request\<lparr>authorization := None, x_api_key := HUndefined\<rparr>) ?p []
       = handleOpenRouterProxy test_runtime test_config test_fetch sentinel_request ?p []"
    using passthrough_credentials[where req = sentinel_request and rt = test_runtime
        and cfg = test_config and fetch = test_fetch and p = ?p and q = "[]"] a3
    by blast
  from c1 c2 c3 show ?thesis by blast
qed

theorem not_curated_credentials_message:
  "http_method client_key_request = ''POST''
   \<and> parseJsonBody test_runtime (concat (body_chunks client_key_request)) = Inr payload_not_curated
   \<and> \<not> isOpenRouterCuratedModelId (string_or_empty (get_prop payload_not_curated ''model''))
   \<and> fst (handleOpenRouterProxy test_runtime test_config test_fetch client_key_request
             ''/api/openrouter/v1/chat/completions'' [])
       = sendJson 400 (errorPayload unmanagedCredentialsMessage)
   \<and> unmanagedCredentialsMessage \<noteq> modelNotAllowedMessage
   \<and> \<not> str_includes unmanagedCredentialsMessage ''google/gemini-3.1-pro-preview''"
  by code_simp

theorem passthrough_model_allow_list_witness:
  "handleOpenRouterProxy test_runtime test_config test_fetch
       (post_request ''/api/openrouter/v1/chat/completions'' payload_not_curated)
       ''/api/openrouter/v1/chat/completions'' []
     = (sendJson 400 (errorPayload modelNotAllowedMessage), [])
   \<and> length (snd (handleOpenRouterProxy test_runtime test_config test_fetch
       (post_request ''/api/openrouter/v1/chat/completions'' payload_curated)
       ''/api/openrouter/v1/chat/completions'' [])) = 1"
proof -
  let ?p = "''/api/openrouter/v1/chat/completions''"
  let ?bad = "post_request ?p payload_not_curated"
  let ?good = "post_request ?p payload_curated"
  have b: "http_method ?bad = ''POST''
     \<and> (takeWhile (\<lambda>c. c \<noteq> CHR ''?'') (normalizeOpenRouterPath ?p []) = ''/chat/completions''
         \<or> takeWhile (\<lambda>c. c \<noteq> CHR ''?'') (normalizeOpenRouterPath ?p []) = ''/responses'')
     \<and> readRequestBody ?bad (REQUEST_BODY_LIMIT_BYTES test_config) = Inr (render payload_not_curated)
     \<and> parseJsonBody test_runtime (render payload_not_curated) = Inr payload_not_curated
     \<and> \<not> isOpenRouterCuratedModelId (string_or_empty (get_prop payload_not_curated ''model''))
     \<and> \<not> hasUnmanagedClientCredentials ?bad"
    by code_simp
  have g: "http_method ?good = ''POST''
     \<and> readRequestBody ?good (REQUEST_BODY_LIMIT_BYTES test_config) = Inr (render payload_curated)
     \<and> parseJsonBody test_runtime (render payload_curated) = Inr payload_curated
     \<and> isOpenRouterCuratedModelId (string_or_empty (get_prop payload_curated ''model''))
     \<and> \<not> hasUnmanagedClientCredentials ?good"
    by code_simp
  have tb: "statusCode (fst (handleOpenRouterProxy test_runtime test_config test_fetch ?bad ?p [])) = 400
     \<and> snd (handleOpenRouterProxy test_runtime test_config test_fetch ?bad ?p []) = []
     \<and> fst (handleOpenRouterProxy test_runtime test_config test_fetch ?bad ?p [])
         = sendJson 400 (errorPayload modelNotAllowedMessage)"
    using passthrough_model_allow_list[where req = ?bad and p = ?p and q = "[]" and cfg = test_config
        and rt = test_runtime and fetch = test_fetch and buf = "render payload_not_curated"
        and parsed = payload_not_curated] b
    by blast
  have tg: "length (snd (handleOpenRouterProxy test_runtime test_config test_fetch ?good ?p [])) = 1"
    using passthrough_model_allow_list[where req = ?good and p = ?p and q = "[]" and cfg = test_config
        and rt = test_runtime and fetch = test_fetch and buf = "render payload_curated"
        and parsed = payload_curated] b g
    by blast
  from tb tg show ?thesis by (simp add: prod_eq_iff)
qed

section \<open>Properties of the managed endpoint\<close>

lemma handleManagedMcpRpc_parsed:
  assumes "http_method req = ''POST''"
    and "readRequestBody req (REQUEST_BODY_LIMIT_BYTES cfg) = Inr buf"
    and "parseJsonBody rt buf = Inr payload"
  shows "handleManagedMcpRpc rt cfg fetch req = dispatchManagedMcpRpc rt cfg fetch payload"
  using assms by (simp add: handleManagedMcpRpc_def)

lemma dispatch_body_empty:
  "body (fst (dispatchManagedMcpRpc rt cfg fetch payload)) = EmptyBody \<longleftrightarrow>
     string_or_empty (get_prop payload ''method'') = ''notifications/initialized''
     \<and> (get_prop payload ''id'' = None \<or> get_prop payload ''id'' = Some JNull)"
  by (simp add: dispatchManagedMcpRpc_def Let_def split: prod.splits sum.splits)

lemma dispatch_notification:
  assumes "string_or_empty (get_prop payload ''method'') = ''notifications/initialized''"
    and "get_prop payload ''id'' = None \<or> get_prop payload ''id'' = Some JNull"
  shows "dispatchManagedMcpRpc rt cfg fetch payload
           = (\<lparr>statusCode = 204, headers = [], body = EmptyBody\<rparr>, [])"
  using assms by (auto simp add: dispatchManagedMcpRpc_def Let_def)

text \<open>
  C9, as amended. The managed endpoint ends a response without a body exactly for a
  POST whose payload has the method \<open>notifications/initialized\<close> and an \<open>id\<close>
  that is absent or null; that response has status 204, no headers and no body, and
  nothing is sent upstream. Every other request, with or without an \<open>id\<close>,
  receives a response body.
\<close>

theorem notification_without_id:
  "(body (fst (handleManagedMcpRpc rt cfg fetch req)) = EmptyBody) =
     (http_method req = ''POST''
      \<and> (\<exists>buf payload. readRequestBody req (REQUEST_BODY_LIMIT_BYTES cfg) = Inr buf
            \<and> parseJsonBody rt buf = Inr payload
            \<and> string_or_empty (get_prop payload ''method'') = ''notifications/initialized''
            \<and> (get_prop payload ''id'' = None \<or> get_prop payload ''id'' = Some JNull)))
   \<and> (body (fst (handleManagedMcpRpc rt cfg fetch req)) = EmptyBody \<longrightarrow>
        handleManagedMcpRpc rt cfg fetch req
          = (\<lparr>statusCode = 204, headers = [], body = EmptyBody\<rparr>, []))"
proof -
  have iff: "(body (fst (handleManagedMcpRpc rt cfg fetch req)) = EmptyBody) =
     (http_method req = ''POST''
      \<and> (\<exists>buf payload. readRequestBody req (REQUEST_BODY_LIMIT_BYTES cfg) = Inr buf
            \<and> parseJsonBody rt buf = Inr payload
            \<and> string_or_empty (get_prop payload ''method'') = ''notifications/initialized''
            \<and> (get_prop payload ''id'' = None \<or> get_prop payload ''id'' = Some JNull)))"
    by (auto simp: handleManagedMcpRpc_def dispatch_body_empty split: sum.splits)
  have "handleManagedMcpRpc rt cfg fetch req
          = (\<lparr>statusCode = 204, headers = [], body = EmptyBody\<rparr>, [])"
    if "body (fst (handleManagedMcpRpc rt cfg fetch req)) = EmptyBody"
  proof -
    from that iff obtain buf payload where
      "http_method req = ''POST''" "readRequestBody req (REQUEST_BODY_LIMIT_BYTES cfg) = Inr buf"
      "parseJsonBody rt buf = Inr payload"
      "string_or_empty (get_prop payload ''method'') = ''notifications/initialized''"
      "get_prop payload ''id'' = None \<or> get_prop payload ''id'' = Some JNull"
      by blast
    then show ?thesis
      by (simp add: handleManagedMcpRpc_parsed dispatch_notification)
  qed
  with iff show ?thesis by blast
qed

text \<open>
  C5, as amended. For a POST whose body is read within the byte cap: a body that
  fails JSON parsing yields the error code -32700; a payload whose method is none of
  the four known methods yields -32601; a \<open>tools/call\<close> whose \<open>params.name\<close> is
  missing, not a string or empty yields -32602. \<open>params.arguments\<close> is not
  required: with a name, the tool runs on whatever \<open>arguments\<close> is (absent
  included), and the response is the tool result or the code -32000.
\<close>

theorem rpc_error_codes:
  assumes "http_method req = ''POST''"
    and "readRequestBody req (REQUEST_BODY_LIMIT_BYTES cfg) = Inr buf"
  shows "(\<forall>message. parseJsonBody rt buf = Inl message \<longrightarrow>
            handleManagedMcpRpc rt cfg fetch req
              = (sendJson 400 (buildJsonRpcError None (- 32700) message), []))
       \<and> (\<forall>payload. parseJsonBody rt buf = Inr payload \<longrightarrow>
            (string_or_empty (get_prop payload ''method'')
                \<notin> {''initialize'', ''notifications/initialized'', ''tools/list'', ''tools/call''} \<longrightarrow>
               handleManagedMcpRpc rt cfg fetch req
                 = (sendJson 404 (buildJsonRpcError (get_prop payload ''id'') (- 32601)
                      (''Method not found: ''
                         @ (if string_or_empty (get_prop payload ''method'') = [] then ''(empty)''
                            else string_or_empty (get_prop payload ''method'')))), []))
          \<and> (string_or_empty (get_prop payload ''method'') = ''tools/call''
               \<and> string_or_empty (opt_prop (get_prop payload ''params'') ''name'') = [] \<longrightarrow>
               handleManagedMcpRpc rt cfg fetch req
                 = (sendJson 400 (buildJsonRpcError (get_prop payload ''id'') (- 32602)
                      ''tools/call requires params.name''), []))
          \<and> (string_or_empty (get_prop payload ''method'') = ''tools/call''
               \<and> string_or_empty (opt_prop (get_prop payload ''params'') ''name'') \<noteq> [] \<longrightarrow>
               handleManagedMcpRpc rt cfg fetch req
                 = (case runManagedMcpTool rt cfg fetch
                           (string_or_empty (opt_prop (get_prop payload ''params'') ''name''))
                           (opt_prop (get_prop payload ''params'') ''arguments'') of
                      (Inl message, sent) \<Rightarrow>
                        (sendJson 400 (buildJsonRpcError (get_prop payload ''id'') (- 32000) message), sent)
                    | (Inr result, sent) \<Rightarrow>
                        (sendJson 200 (buildJsonRpcSuccess (get_prop payload ''id'') result), sent))))"
  using assms
  by (auto simp: handleManagedMcpRpc_def dispatchManagedMcpRpc_def Let_def)






text \<open>The managed endpoint at concrete requests.\<close>

theorem tools_list_without_id_has_body:
  "get_prop payload_tools_list_no_id ''id'' = None
   \<and> parseJsonBody test_runtime
        (concat (body_chunks (post_request ''/api/mcp/jamaica-market'' payload_tools_list_no_id)))
       = Inr payload_tools_list_no_id
   \<and> fst (handleManagedMcpRpc test_runtime test_config test_fetch
             (post_request ''/api/mcp/jamaica-market'' payload_tools_list_no_id))
       = sendJson 200 (buildJsonRpcSuccess None (JObj [(''tools'', MANAGED_MCP_TOOLS)]))"
  by code_simp

theorem notification_without_id_witness:
  "handleManagedMcpRpc test_runtime test_config test_fetch
     (post_request ''/api/mcp/jamaica-market'' payload_initialized_no_id)
   = (\<lparr>statusCode = 204, headers = [], body = EmptyBody\<rparr>, [])"
proof -
  let ?r = "post_request ''/api/mcp/jamaica-market'' payload_initialized_no_id"
  have a: "http_method ?r = ''POST''
     \<and> readRequestBody ?r (REQUEST_BODY_LIMIT_BYTES test_config) = Inr (render payload_initialized_no_id)
     \<and> parseJsonBody test_runtime (render payload_initialized_no_id) = Inr payload_initialized_no_id
     \<and> string_or_empty (get_prop payload_initialized_no_id ''method'') = ''notifications/initialized''
     \<and> get_prop payload_initialized_no_id ''id'' = None"
    by code_simp
  note t = notification_without_id[where req = ?r and rt = test_runtime and cfg = test_config
      and fetch = test_fetch]
  from a have "body (fst (handleManagedMcpRpc test_runtime test_config test_fetch ?r)) = EmptyBody"
    unfolding t[THEN conjunct1] by blast
  with t show ?thesis by blast
qed

theorem call_without_arguments_succeeds:
  "string_or_empty (get_prop payload_call_without_arguments ''method'') = ''tools/call''
   \<and> opt_prop (get_prop payload_call_without_arguments ''params'') ''arguments'' = None
   \<and> parseJsonBody test_runtime
        (concat (body_chunks (post_request ''/api/mcp/jamaica-market'' payload_call_without_arguments)))
       = Inr payload_call_without_arguments
   \<and> handleManagedMcpRpc test_runtime test_config test_fetch
        (post_request ''/api/mcp/jamaica-market'' payload_call_without_arguments)
       = (sendJson 200 (buildJsonRpcSuccess (Some (JNum 1)) (toolResult ''jm_list_companies'' (JObj []))),
          [\<lparr>target = ''http://127.0.0.1:4002/company'', fetch_method = ''GET'', fetch_body = None,
            fetch_headers = [(''Accept'', ''application/json'')]\<rparr>])"
  by code_simp

theorem rpc_error_codes_witness:
  "handleManagedMcpRpc test_runtime test_config test_fetch
       (bare_request\<lparr>http_method := ''POST'', body_chunks := [''{not json'']\<rparr>)
     = (sendJson 400 (buildJsonRpcError None (- 32700) ''Invalid JSON body.''), [])
   \<and> handleManagedMcpRpc test_runtime test_config test_fetch
       (post_request ''/api/mcp/jamaica-market'' payload_unknown_method)
     = (sendJson 404 (buildJsonRpcError (get_prop payload_unknown_method ''id'') (- 32601)
          (''Method not found: ''
             @ (if string_or_empty (get_prop payload_unknown_method ''method'') = [] then ''(empty)''
                else string_or_empty (get_prop payload_unknown_method ''method'')))), [])
   \<and> handleManagedMcpRpc test_runtime test_config test_fetch
       (post_request ''/api/mcp/jamaica-market'' payload_call_without_name)
     = (sendJson 400 (buildJsonRpcError (get_prop payload_call_without_name ''id'') (- 32602)
          ''tools/call requires params.name''), [])
   \<and> handleManagedMcpRpc test_runtime test_config test_fetch
       (post_request ''/api/mcp/jamaica-market'' payload_call_without_arguments)
     = (case runManagedMcpTool test_runtime test_config test_fetch
               (string_or_empty (opt_prop (get_prop payload_call_without_arguments ''params'') ''name''))
               (opt_prop (get_prop payload_call_without_arguments ''params'') ''arguments'') of
          (Inl message, sent) \<Rightarrow>
            (sendJson 400 (buildJsonRpcError (get_prop payload_call_without_arguments ''id'')
               (- 32000) message), sent)
        | (Inr result, sent) \<Rightarrow>
            (sendJson 200 (buildJsonRpcSuccess (get_prop payload_call_without_arguments ''id'') result),
             sent))"
proof -
  let ?garbage = "bare_request\<lparr>http_method := ''POST'', body_chunks := [''{not json'']\<rparr>"
  let ?unknown = "post_request ''/api/mcp/jamaica-market'' payload_unknown_method"
  let ?noname = "post_request ''/api/mcp/jamaica-market'' payload_call_without_name"
  let ?noargs = "post_request ''/api/mcp/jamaica-market'' payload_call_without_arguments"
  have g1: "http_method ?garbage = ''POST''" by code_simp
  have g2: "readRequestBody ?garbage (REQUEST_BODY_LIMIT_BYTES test_config) = Inr ''{not json''"
    by code_simp
  have g3: "parseJsonBody test_runtime ''{not json'' = Inl ''Invalid JSON body.''" by code_simp
  have u1: "http_method ?unknown = ''POST''" by code_simp
  have u2: "readRequestBody ?unknown (REQUEST_BODY_LIMIT_BYTES test_config)
              = Inr (render payload_unknown_method)" by code_simp
  have u3: "parseJsonBody test_runtime (render payload_unknown_method) = Inr payload_unknown_method"
    by code_simp
  have u4: "string_or_empty (get_prop payload_unknown_method ''method'')
      \<notin> {''initialize'', ''notifications/initialized'', ''tools/list'', ''tools/call''}"
    by code_simp
  have n1: "http_method ?noname = ''POST''" by code_simp
  have n2: "readRequestBody ?noname (REQUEST_BODY_LIMIT_BYTES test_config)
              = Inr (render payload_call_without_name)" by code_simp
  have n3: "parseJsonBody test_runtime (render payload_call_without_name) = Inr payload_call_without_name"
    by code_simp
  have n4: "string_or_empty (get_prop payload_call_without_name ''method'') = ''tools/call''
      \<and> string_or_empty (opt_prop (get_prop payload_call_without_name ''params'') ''name'') = []"
    by code_simp
  have a1: "http_method ?noargs = ''POST''" by code_simp
  have a2: "readRequestBody ?noargs (REQUEST_BODY_LIMIT_BYTES test_config)
              = Inr (render payload_call_without_arguments)" by code_simp
  have a3: "parseJsonBody test_runtime (render payload_call_without_arguments)
              = Inr payload_call_without_arguments" by code_simp
  have a4: "string_or_empty (get_prop payload_call_without_arguments ''method'') = ''tools/call''
      \<and> string_or_empty (opt_prop (get_prop payload_call_without_arguments ''params'') ''name'') \<noteq> []"
    by code_simp
  note parse_error = rpc_error_codes[OF g1 g2, where rt = test_runtime and fetch = test_fetch,
      THEN conjunct1, THEN spec, THEN mp, OF g3]
  note unknown = rpc_error_codes[OF u1 u2, where rt = test_runtime and fetch = test_fetch,
      THEN conjunct2, THEN spec, THEN mp, OF u3, THEN conjunct1, THEN mp, OF u4]
  note noname = rpc_error_codes[OF n1 n2, where rt = test_runtime and fetch = test_fetch,
      THEN conjunct2, THEN spec, THEN mp, OF n3, THEN conjunct2, THEN conjunct1, THEN mp, OF n4]
  note noargs = rpc_error_codes[OF a1 a2, where rt = test_runtime and fetch = test_fetch,
      THEN conjunct2, THEN spec, THEN mp, OF a3, THEN conjunct2, THEN conjunct2, THEN mp, OF a4]
  show ?thesis
    by (rule conjI[OF parse_error conjI[OF unknown conjI[OF noname noargs]]])
qed



section \<open>Properties of the gateway client\<close>

lemma extends_refl [simp]: "extends st st"
  by (simp add: extends_def)

lemma extends_trans: "extends a b \<Longrightarrow> extends b c \<Longrightarrow> extends a c"
  by (auto simp: extends_def)

lemma newCalls_self [simp]: "newCalls st st = []"
  by (simp add: newCalls_def)

lemma newCalls_trans:
  "extends a b \<Longrightarrow> extends b c \<Longrightarrow> newCalls a c = newCalls a b @ newCalls b c"
  by (auto simp: extends_def newCalls_def)

lemma countMethod_append [simp]: "countMethod m (xs @ ys) = countMethod m xs + countMethod m ys"
  by (simp add: countMethod_def)

lemma countMethod_Nil [simp]: "countMethod m [] = 0"
  by (simp add: countMethod_def)

lemma countMethod_Cons [simp]:
  "countMethod m (c # cs) = (if call_method c = m then 1 else 0) + countMethod m cs"
  by (simp add: countMethod_def)

lemma issue_log:
  assumes "issue deps st call = (r, st')"
  shows "extends st st' \<and> newCalls st st' = [call]"
  using assms by (auto simp: issue_def extends_def newCalls_def split: prod.splits)

lemma issue_cache:
  assumes "issue deps st call = (r, st')"
  shows "toolCache st' = toolCache st"
  using assms by (auto simp: issue_def split: prod.splits)

lemma ensureServerTools_calls:
  assumes "ensureServerTools deps st srv pbu refresh = (r, st')"
  shows "extends st st' \<and> (\<exists>k \<le> 3. (refresh \<longrightarrow> 1 \<le> k) \<and>
           newCalls st st' = take k [initializeCall deps srv pbu, initializedCall srv pbu, toolsListCall srv pbu])"
proof (cases "if refresh then None else toolCache st (server_id srv)")
  case (Some cached)
  with assms have "st' = st" "\<not> refresh" by (auto simp: ensureServerTools_def split: if_splits)
  then show ?thesis by (intro conjI exI[of _ 0]) auto
next
  case None
  obtain r1 st1 where i1: "issue deps st (initializeCall deps srv pbu) = (r1, st1)"
    by (cases "issue deps st (initializeCall deps srv pbu)")
  note l1 = issue_log[OF i1]
  show ?thesis
  proof (cases r1)
    case (Inl e)
    with assms None i1 have "st' = st1" by (simp add: ensureServerTools_def)
    with l1 show ?thesis by (intro conjI exI[of _ 1]) auto
  next
    case (Inr v1)
    obtain r2 st2 where i2: "issue deps st1 (initializedCall srv pbu) = (r2, st2)"
      by (cases "issue deps st1 (initializedCall srv pbu)")
    note l2 = issue_log[OF i2]
    have e2: "extends st st2" using l1 l2 extends_trans by blast
    have n2: "newCalls st st2 = [initializeCall deps srv pbu, initializedCall srv pbu]"
      using newCalls_trans[of st st1 st2] l1 l2 by simp
    show ?thesis
    proof (cases r2)
      case (Inl e)
      with assms None i1 i2 Inr have "st' = st2" by (simp add: ensureServerTools_def)
      with e2 n2 show ?thesis by (intro conjI exI[of _ 2]) auto
    next
      case r2: (Inr v2)
      obtain r3 st3 where i3: "issue deps st2 (toolsListCall srv pbu) = (r3, st3)"
        by (cases "issue deps st2 (toolsListCall srv pbu)")
      note l3 = issue_log[OF i3]
      have e3: "extends st st3" using e2 l3 extends_trans by blast
      have n3: "newCalls st st3 = [initializeCall deps srv pbu, initializedCall srv pbu, toolsListCall srv pbu]"
        using newCalls_trans[of st st2 st3] e2 n2 l3 by simp
      have "issued st' = issued st3"
        using assms None i1 i2 i3 Inr r2
        by (auto simp: ensureServerTools_def Let_def split: sum.splits option.splits)
      then have "extends st st' \<and> newCalls st st' = newCalls st st3"
        using e3 by (simp add: extends_def newCalls_def)
      with n3 show ?thesis by (intro conjI exI[of _ 3]) auto
    qed
  qed
qed

lemma ensureServerTools_log:
  assumes "ensureServerTools deps st srv pbu refresh = (r, st')"
  shows "extends st st'"
    and "countMethod ''tools/call'' (newCalls st st') = 0"
    and "countMethod ''initialize'' (newCalls st st') \<le> 1"
    and "refresh \<Longrightarrow> countMethod ''initialize'' (newCalls st st') = 1"
proof -
  from ensureServerTools_calls[OF assms] obtain k where
    e: "extends st st'" and k: "k \<le> 3" "refresh \<longrightarrow> 1 \<le> k"
    and n: "newCalls st st' = take k [initializeCall deps srv pbu, initializedCall srv pbu, toolsListCall srv pbu]"
    by blast
  have m: "call_method (initializeCall deps srv pbu) = ''initialize''"
    "call_method (initializedCall srv pbu) = ''notifications/initialized''"
    "call_method (toolsListCall srv pbu) = ''tools/list''"
    by (simp_all add: initializeCall_def initializedCall_def toolsListCall_def)
  from k(1) have kc: "k = 0 \<or> k = 1 \<or> k = 2 \<or> k = 3" by arith
  show "extends st st'" by (rule e)
  from kc show "countMethod ''tools/call'' (newCalls st st') = 0"
    using n m by (elim disjE) (simp_all add: numeral_2_eq_2 numeral_3_eq_3)
  from kc show "countMethod ''initialize'' (newCalls st st') \<le> 1"
    using n m by (elim disjE) (simp_all add: numeral_2_eq_2 numeral_3_eq_3)
  show "countMethod ''initialize'' (newCalls st st') = 1" if refresh
  proof -
    from that k kc have "k = 1 \<or> k = 2 \<or> k = 3" by arith
    then show ?thesis
      using n m by (elim disjE) (simp_all add: numeral_2_eq_2 numeral_3_eq_3)
  qed
qed

lemma listToolsAcrossServers_log:
  "listToolsAcrossServers deps st srvs pbu = (r, st') \<Longrightarrow>
     extends st st' \<and> countMethod ''tools/call'' (newCalls st st') = 0"
proof (induction srvs arbitrary: st r st')
  case Nil
  then show ?case by simp
next
  case (Cons srv rest)
  show ?case
  proof (cases "enabled srv")
    case False
    with Cons show ?thesis by simp
  next
    case True
    obtain r1 st1 where e1: "ensureServerTools deps st srv pbu False = (r1, st1)"
      by (cases "ensureServerTools deps st srv pbu False")
    note l1 = ensureServerTools_log(1,2)[OF e1]
    show ?thesis
    proof (cases r1)
      case (Inl e)
      with Cons.prems True e1 have "st' = st1" by simp
      with l1 show ?thesis by simp
    next
      case (Inr lst)
      obtain r2 st2 where e2: "listToolsAcrossServers deps st1 rest pbu = (r2, st2)"
        by (cases "listToolsAcrossServers deps st1 rest pbu")
      note l2 = Cons.IH[OF e2]
      have "st' = st2" using Cons.prems True e1 Inr e2 by (auto split: sum.splits)
      then show ?thesis
        using l1 l2 newCalls_trans[of st st1 st2] extends_trans[of st st1 st2] by simp
    qed
  qed
qed

lemma resolveTool_log:
  assumes "resolveTool deps st rc params tool = (r, st')"
  shows "extends st st' \<and> countMethod ''tools/call'' (newCalls st st') = 0"
proof -
  define candidates where "candidates =
            (if truthy (param_server params)
             then (case resolveSingleServer rc (the (param_server params)) of
                     Inl e \<Rightarrow> (Inl e, st)
                   | Inr srv \<Rightarrow>
                       (case ensureServerTools deps st srv (config_proxyBaseUrl rc) False of
                          (Inl e, st1) \<Rightarrow> (Inl e, st1)
                        | (Inr lst, st1) \<Rightarrow> (Inr [lst], st1)))
             else listToolsAcrossServers deps st (filter enabled (servers rc)) (config_proxyBaseUrl rc))"
  have c: "extends st (snd candidates) \<and> countMethod ''tools/call'' (newCalls st (snd candidates)) = 0"
  proof (cases "truthy (param_server params)")
    case False
    then show ?thesis
      using listToolsAcrossServers_log[of deps st "filter enabled (servers rc)" "config_proxyBaseUrl rc"]
      by (cases "listToolsAcrossServers deps st (filter enabled (servers rc)) (config_proxyBaseUrl rc)")
         (simp add: candidates_def)
  next
    case True
    show ?thesis
    proof (cases "resolveSingleServer rc (the (param_server params))")
      case (Inl e)
      with True show ?thesis by (simp add: candidates_def)
    next
      case (Inr srv)
      obtain r1 st1 where e1: "ensureServerTools deps st srv (config_proxyBaseUrl rc) False = (r1, st1)"
        by (cases "ensureServerTools deps st srv (config_proxyBaseUrl rc) False")
      from ensureServerTools_log(1,2)[OF e1] True Inr e1 show ?thesis
        by (cases r1) (simp_all add: candidates_def)
    qed
  qed
  have "st' = snd candidates"
    using assms unfolding resolveTool_def candidates_def[symmetric] Let_def
    by (auto split: prod.splits sum.splits if_splits)
  with c show ?thesis by simp
qed

lemma callTool_log:
  assumes "callTool deps st rc srv tool args = (r, st')"
  shows "extends st st' \<and> newCalls st st' = [toolsCallCall rc srv tool args]"
proof -
  obtain r1 st1 where i: "issue deps st (toolsCallCall rc srv tool args) = (r1, st1)"
    by (cases "issue deps st (toolsCallCall rc srv tool args)")
  with assms have "st' = st1" by (auto simp: callTool_def split: sum.splits option.splits)
  with issue_log[OF i] show ?thesis by simp
qed


lemma callToolWithRetry_log:
  assumes whole: "callToolWithRetry deps st rc srv tool args ls = (r, ls', st')"
    and first: "callTool deps st rc srv tool args = (r1, st1)"
    and refresh: "ensureServerTools deps st1 srv (config_proxyBaseUrl rc) True = (r2, st2)"
    and second: "callTool deps st2 rc srv tool args = (r3, st3)"
  shows "(\<forall>callResult. r1 = Inr callResult \<longrightarrow>
            r = Inr callResult \<and> st' = st1 \<and> retryApplied ls' = retryApplied ls)
       \<and> (\<forall>e. r1 = Inl e \<and> \<not> isRecoverableToolCallError deps e \<longrightarrow>
            r = Inl e \<and> st' = st1 \<and> retryApplied ls' = retryApplied ls)
       \<and> (\<forall>e. r1 = Inl e \<and> isRecoverableToolCallError deps e \<longrightarrow>
            retryApplied ls'
            \<and> countMethod ''initialize'' (newCalls st st') = 1
            \<and> (\<forall>e2. r2 = Inl e2 \<longrightarrow>
                  r = Inl e2 \<and> st' = st2 \<and> countMethod ''tools/call'' (newCalls st st') = 1)
            \<and> (\<forall>lst. r2 = Inr lst \<longrightarrow>
                  r = r3 \<and> st' = st3 \<and> countMethod ''tools/call'' (newCalls st st') = 2))
       \<and> extends st st'
       \<and> 1 \<le> countMethod ''tools/call'' (newCalls st st')
       \<and> countMethod ''tools/call'' (newCalls st st') \<le> 2
       \<and> countMethod ''initialize'' (newCalls st st') \<le> 1"
proof -
  let ?c = "toolsCallCall rc srv tool args"
  have cm: "call_method ?c = ''tools/call''" by (simp add: toolsCallCall_def)
  note l1 = callTool_log[OF first]
  have n1: "countMethod ''tools/call'' (newCalls st st1) = 1"
    "countMethod ''initialize'' (newCalls st st1) = 0"
    using l1 cm by simp_all
  note l2 = ensureServerTools_log[OF refresh]
  have e2: "extends st st2" using l1 l2(1) extends_trans by blast
  have n2: "countMethod ''tools/call'' (newCalls st st2) = 1"
    "countMethod ''initialize'' (newCalls st st2) = 1"
    using newCalls_trans[of st st1 st2] l1 l2 n1 by simp_all
  note l3 = callTool_log[OF second]
  have e3: "extends st st3" using e2 l3 extends_trans by blast
  have n3: "countMethod ''tools/call'' (newCalls st st3) = 2"
    "countMethod ''initialize'' (newCalls st st3) = 1"
    using newCalls_trans[of st st2 st3] e2 l3 n2 cm by simp_all
  show ?thesis
  proof (cases r1)
    case (Inr callResult)
    with whole first have "r = Inr callResult" "st' = st1" "ls' = ls"
      by (simp_all add: callToolWithRetry_def)
    with Inr l1 n1 show ?thesis by simp
  next
    case (Inl e)
    show ?thesis
    proof (cases "isRecoverableToolCallError deps e")
      case False
      with whole first Inl have "r = Inl e" "st' = st1" "ls' = ls\<lparr>rpcErrorCode := getRpcErrorCode e\<rparr>"
        by (simp_all add: callToolWithRetry_def Let_def)
      with Inl False l1 n1 show ?thesis by simp
    next
      case True
      show ?thesis
      proof (cases r2)
        case e2': (Inl e2)
        with whole first refresh Inl True
        have "r = Inl e2" "st' = st2" "ls' = ls\<lparr>rpcErrorCode := getRpcErrorCode e, retryApplied := True\<rparr>"
          by (simp_all add: callToolWithRetry_def Let_def)
        with Inl True e2' e2 n2 show ?thesis by simp
      next
        case (Inr lst)
        with whole first refresh second Inl True
        have "r = r3" "st' = st3" "ls' = ls\<lparr>rpcErrorCode := getRpcErrorCode e, retryApplied := True\<rparr>"
          by (simp_all add: callToolWithRetry_def Let_def)
        with Inl True Inr e3 n3 show ?thesis by simp
      qed
    qed
  qed
qed

lemma toolOperationBody_log:
  assumes "toolOperationBody deps st rc params = (r, ls, st')"
  shows "extends st st' \<and> countMethod ''tools/call'' (newCalls st st') \<le> 2"
proof (cases "length (servers rc) = 0")
  case True
  with assms have "st' = st" by (simp add: toolOperationBody_def Let_def)
  then show ?thesis by simp
next
  case False
  obtain r1 st1 where res: "resolveTool deps st rc params (the (param_tool params)) = (r1, st1)"
    by (cases "resolveTool deps st rc params (the (param_tool params))")
  note l1 = resolveTool_log[OF res]
  show ?thesis
  proof (cases r1)
    case (Inl e)
    with assms False res have "st' = st1" by (simp add: toolOperationBody_def Let_def)
    with l1 show ?thesis by simp
  next
    case (Inr tgt)
    obtain targetTool targetServer where tgt: "tgt = (targetTool, targetServer)" by (cases tgt)
    show ?thesis
    proof (cases "parseCallArgs deps (param_args params)")
      case pe: (Inl e)
      with assms False res Inr tgt have "st' = st1" by (simp add: toolOperationBody_def Let_def)
      with l1 show ?thesis by simp
    next
      case pa: (Inr parsedArgs)
      obtain r2 ls2 st2 where w: "callToolWithRetry deps st1 rc targetServer targetTool parsedArgs
          \<lparr>retryApplied = False, rpcMethod = Some ''tools/call'', rpcErrorCode = None\<rparr> = (r2, ls2, st2)"
        by (metis prod_cases3)
      have "st' = st2"
        using assms False res Inr tgt pa w
        by (auto simp: toolOperationBody_def Let_def split: sum.splits)
      moreover have "extends st1 st2 \<and> countMethod ''tools/call'' (newCalls st1 st2) \<le> 2"
        using callToolWithRetry_log[OF w, of "fst (callTool deps st1 rc targetServer targetTool parsedArgs)"
            "snd (callTool deps st1 rc targetServer targetTool parsedArgs)"
            "fst (ensureServerTools deps (snd (callTool deps st1 rc targetServer targetTool parsedArgs))
                    targetServer (config_proxyBaseUrl rc) True)"
            "snd (ensureServerTools deps (snd (callTool deps st1 rc targetServer targetTool parsedArgs))
                    targetServer (config_proxyBaseUrl rc) True)"
            "fst (callTool deps (snd (ensureServerTools deps (snd (callTool deps st1 rc targetServer targetTool parsedArgs))
                    targetServer (config_proxyBaseUrl rc) True)) rc targetServer targetTool parsedArgs)"
            "snd (callTool deps (snd (ensureServerTools deps (snd (callTool deps st1 rc targetServer targetTool parsedArgs))
                    targetServer (config_proxyBaseUrl rc) True)) rc targetServer targetTool parsedArgs)"]
        by simp
      ultimately show ?thesis
        using l1 newCalls_trans[of st st1 st2] extends_trans[of st st1 st2] by simp
    qed
  qed
qed

lemma ensureServerTools_server:
  assumes "ensureServerTools deps st srv pbu refresh = (r, st')"
  shows "\<forall>c \<in> set (newCalls st st'). call_server c = srv"
proof -
  from ensureServerTools_calls[OF assms] obtain k where
    n: "newCalls st st' = take k [initializeCall deps srv pbu, initializedCall srv pbu, toolsListCall srv pbu]"
    by blast
  have "\<forall>c \<in> set [initializeCall deps srv pbu, initializedCall srv pbu, toolsListCall srv pbu].
          call_server c = srv"
    by (simp add: initializeCall_def initializedCall_def toolsListCall_def)
  then show ?thesis unfolding n using set_take_subset by fast
qed

text \<open>
  C3, as amended. \<open>r1\<close> is the outcome of the first \<open>tools/call\<close>, \<open>r2\<close> of a
  refresh after it and \<open>r3\<close> of a second call after that refresh. If the first call
  succeeds, or fails with an error that is not recoverable, its outcome is the outcome
  of the operation, unchanged, and nothing else is issued. If it fails with a
  recoverable error, the retry is recorded and the catalog of the target server is
  refreshed exactly once: when the refresh fails its error propagates and the call is
  not retried; when it succeeds the call is retried exactly once and the outcome of
  the retry, a second failure included, is the outcome of the operation. In every
  case \<open>tools/call\<close> is issued once or twice, never more, also over the whole tool
  operation, and the result records whether a retry was applied.
\<close>

theorem stale_catalog_retry:
  assumes whole: "callToolWithRetry deps st rc srv tool args ls = (r, ls', st')"
    and first: "callTool deps st rc srv tool args = (r1, st1)"
    and refresh: "ensureServerTools deps st1 srv (config_proxyBaseUrl rc) True = (r2, st2)"
    and second: "callTool deps st2 rc srv tool args = (r3, st3)"
    and operation: "toolOperationBody deps st0 rc0 params = (r0, ls0, st0')"
  shows "(\<forall>callResult. r1 = Inr callResult \<longrightarrow>
            r = Inr callResult \<and> st' = st1 \<and> retryApplied ls' = retryApplied ls)
       \<and> (\<forall>e. r1 = Inl e \<and> \<not> isRecoverableToolCallError deps e \<longrightarrow>
            r = Inl e \<and> st' = st1 \<and> retryApplied ls' = retryApplied ls)
       \<and> (\<forall>e. r1 = Inl e \<and> isRecoverableToolCallError deps e \<longrightarrow>
            retryApplied ls'
            \<and> countMethod ''initialize'' (newCalls st st') = 1
            \<and> (\<forall>e2. r2 = Inl e2 \<longrightarrow>
                  r = Inl e2 \<and> st' = st2 \<and> countMethod ''tools/call'' (newCalls st st') = 1)
            \<and> (\<forall>lst. r2 = Inr lst \<longrightarrow>
                  r = r3 \<and> st' = st3 \<and> countMethod ''tools/call'' (newCalls st st') = 2))
       \<and> extends st st'
       \<and> 1 \<le> countMethod ''tools/call'' (newCalls st st')
       \<and> countMethod ''tools/call'' (newCalls st st') \<le> 2
       \<and> countMethod ''initialize'' (newCalls st st') \<le> 1
       \<and> (\<forall>c \<in> set (newCalls st1 st2). call_server c = srv)
       \<and> countMethod ''tools/call'' (newCalls st0 st0') \<le> 2
       \<and> details_retryApplied (details (fst (executeTool deps st0 rc0 params))) = retryApplied ls0"
proof -
  note a = callToolWithRetry_log[OF whole first refresh second]
  note b = ensureServerTools_server[OF refresh]
  note c = toolOperationBody_log[OF operation, THEN conjunct2]
  have d: "details_retryApplied (details (fst (executeTool deps st0 rc0 params))) = retryApplied ls0"
    using operation by (cases r0) (auto simp: executeTool_def Let_def)
  from a b c d show ?thesis by blast
qed

theorem stale_catalog_retry_witness:
  "retryApplied (fst (snd (callToolWithRetry test_dependencies (fresh_client script_retry_only)
        one_server server_beta lookup_descriptor (JObj []) initial_locals)))
   \<and> countMethod ''initialize'' (newCalls (fresh_client script_retry_only)
        (snd (snd (callToolWithRetry test_dependencies (fresh_client script_retry_only)
           one_server server_beta lookup_descriptor (JObj []) initial_locals)))) = 1
   \<and> countMethod ''tools/call'' (newCalls (fresh_client script_retry_only)
        (snd (snd (callToolWithRetry test_dependencies (fresh_client script_retry_only)
           one_server server_beta lookup_descriptor (JObj []) initial_locals)))) = 2
   \<and> fst (callToolWithRetry test_dependencies (fresh_client script_retry_only)
        one_server server_beta lookup_descriptor (JObj []) initial_locals)
       = Inr \<lparr>rpc_result = call_succeeded, result_proxied = False, result_proxyBaseUrl = None\<rparr>
   \<and> countMethod ''tools/call'' (newCalls (fresh_client script_retry_succeeds)
        (snd (snd (toolOperationBody test_dependencies (fresh_client script_retry_succeeds)
           one_server lookup_params)))) \<le> 2
   \<and> fst (callToolWithRetry test_dependencies (fresh_client script_unauthorized)
        one_server server_beta lookup_descriptor (JObj []) initial_locals)
       = Inl (Error ''MCP request failed (401): Unauthorized'')
   \<and> fst (callToolWithRetry test_dependencies (fresh_client script_refresh_fails_only)
        one_server server_beta lookup_descriptor (JObj []) initial_locals)
       = Inl (Error ''MCP request failed (503): Service Unavailable'')
   \<and> countMethod ''tools/call'' (newCalls (fresh_client script_refresh_fails_only)
        (snd (snd (callToolWithRetry test_dependencies (fresh_client script_refresh_fails_only)
           one_server server_beta lookup_descriptor (JObj []) initial_locals)))) = 1"
proof -
  let ?S0 = "fresh_client script_retry_succeeds"
  let ?OP = "toolOperationBody test_dependencies ?S0 one_server lookup_params"
  have operation: "?OP = (fst ?OP, fst (snd ?OP), snd (snd ?OP))" by simp
  have recoverable: "isRecoverableToolCallError test_dependencies
           (McpRpcError ''Tool not found: lookup'' (Some (- 32601)))"
    by code_simp
  have retry: "retryApplied (fst (snd (callToolWithRetry test_dependencies (fresh_client script_retry_only)
        one_server server_beta lookup_descriptor (JObj []) initial_locals)))
   \<and> countMethod ''initialize'' (newCalls (fresh_client script_retry_only)
        (snd (snd (callToolWithRetry test_dependencies (fresh_client script_retry_only)
           one_server server_beta lookup_descriptor (JObj []) initial_locals)))) = 1
   \<and> countMethod ''tools/call'' (newCalls (fresh_client script_retry_only)
        (snd (snd (callToolWithRetry test_dependencies (fresh_client script_retry_only)
           one_server server_beta lookup_descriptor (JObj []) initial_locals)))) = 2
   \<and> fst (callToolWithRetry test_dependencies (fresh_client script_retry_only)
        one_server server_beta lookup_descriptor (JObj []) initial_locals)
       = Inr \<lparr>rpc_result = call_succeeded, result_proxied = False, result_proxyBaseUrl = None\<rparr>
   \<and> countMethod ''tools/call'' (newCalls (fresh_client script_retry_succeeds)
        (snd (snd (toolOperationBody test_dependencies (fresh_client script_retry_succeeds)
           one_server lookup_params)))) \<le> 2"
  proof -
    let ?S = "fresh_client script_retry_only"
    let ?W = "callToolWithRetry test_dependencies ?S one_server server_beta lookup_descriptor (JObj [])
                initial_locals"
    let ?C1 = "callTool test_dependencies ?S one_server server_beta lookup_descriptor (JObj [])"
    let ?R = "ensureServerTools test_dependencies (snd ?C1) server_beta (config_proxyBaseUrl one_server) True"
    let ?C3 = "callTool test_dependencies (snd ?R) one_server server_beta lookup_descriptor (JObj [])"
    have whole: "?W = (fst ?W, fst (snd ?W), snd (snd ?W))" by simp
    have first: "?C1 = (fst ?C1, snd ?C1)" by simp
    have refresh: "?R = (fst ?R, snd ?R)" by simp
    have second: "?C3 = (fst ?C3, snd ?C3)" by simp
    note t = stale_catalog_retry[OF whole first refresh second operation]
    have h1: "fst ?C1 = Inl (McpRpcError ''Tool not found: lookup'' (Some (- 32601)))"
      by code_simp
    note rec = t[THEN conjunct2, THEN conjunct2, THEN conjunct1, THEN spec, THEN mp,
        OF conjI[OF h1 recoverable]]
    have h2: "fst ?R = Inr lookup_list"
      by code_simp
    note retried = rec[THEN conjunct2, THEN conjunct2, THEN conjunct2, THEN spec, THEN mp, OF h2]
    have v3: "fst ?C3 = Inr \<lparr>rpc_result = call_succeeded, result_proxied = False, result_proxyBaseUrl = None\<rparr>"
      by code_simp
    note bound = t[THEN conjunct2, THEN conjunct2, THEN conjunct2, THEN conjunct2, THEN conjunct2,
        THEN conjunct2, THEN conjunct2, THEN conjunct2, THEN conjunct1]
    show ?thesis
      by (rule conjI[OF rec[THEN conjunct1]
            conjI[OF rec[THEN conjunct2, THEN conjunct1]
              conjI[OF retried[THEN conjunct2, THEN conjunct2]
                conjI[OF trans[OF retried[THEN conjunct1] v3] bound]]]])
  qed
  have unauthorized: "fst (callToolWithRetry test_dependencies (fresh_client script_unauthorized)
        one_server server_beta lookup_descriptor (JObj []) initial_locals)
       = Inl (Error ''MCP request failed (401): Unauthorized'')"
  proof -
    let ?S = "fresh_client script_unauthorized"
    let ?W = "callToolWithRetry test_dependencies ?S one_server server_beta lookup_descriptor (JObj [])
                initial_locals"
    let ?C1 = "callTool test_dependencies ?S one_server server_beta lookup_descriptor (JObj [])"
    let ?R = "ensureServerTools test_dependencies (snd ?C1) server_beta (config_proxyBaseUrl one_server) True"
    let ?C3 = "callTool test_dependencies (snd ?R) one_server server_beta lookup_descriptor (JObj [])"
    have whole: "?W = (fst ?W, fst (snd ?W), snd (snd ?W))" by simp
    have first: "?C1 = (fst ?C1, snd ?C1)" by simp
    have refresh: "?R = (fst ?R, snd ?R)" by simp
    have second: "?C3 = (fst ?C3, snd ?C3)" by simp
    note t = stale_catalog_retry[OF whole first refresh second operation]
    have h1: "fst ?C1 = Inl (Error ''MCP request failed (401): Unauthorized'')
        \<and> \<not> isRecoverableToolCallError test_dependencies (Error ''MCP request failed (401): Unauthorized'')"
      by code_simp
    show ?thesis
      by (rule t[THEN conjunct2, THEN conjunct1, THEN spec, THEN mp, OF h1, THEN conjunct1])
  qed
  have refresh_fails: "fst (callToolWithRetry test_dependencies (fresh_client script_refresh_fails_only)
        one_server server_beta lookup_descriptor (JObj []) initial_locals)
       = Inl (Error ''MCP request failed (503): Service Unavailable'')
   \<and> countMethod ''tools/call'' (newCalls (fresh_client script_refresh_fails_only)
        (snd (snd (callToolWithRetry test_dependencies (fresh_client script_refresh_fails_only)
           one_server server_beta lookup_descriptor (JObj []) initial_locals)))) = 1"
  proof -
    let ?S = "fresh_client script_refresh_fails_only"
    let ?W = "callToolWithRetry test_dependencies ?S one_server server_beta lookup_descriptor (JObj [])
                initial_locals"
    let ?C1 = "callTool test_dependencies ?S one_server server_beta lookup_descriptor (JObj [])"
    let ?R = "ensureServerTools test_dependencies (snd ?C1) server_beta (config_proxyBaseUrl one_server) True"
    let ?C3 = "callTool test_dependencies (snd ?R) one_server server_beta lookup_descriptor (JObj [])"
    have whole: "?W = (fst ?W, fst (snd ?W), snd (snd ?W))" by simp
    have first: "?C1 = (fst ?C1, snd ?C1)" by simp
    have refresh: "?R = (fst ?R, snd ?R)" by simp
    have second: "?C3 = (fst ?C3, snd ?C3)" by simp
    note t = stale_catalog_retry[OF whole first refresh second operation]
    have h1: "fst ?C1 = Inl (McpRpcError ''Tool not found: lookup'' (Some (- 32601)))"
      by code_simp
    note rec = t[THEN conjunct2, THEN conjunct2, THEN conjunct1, THEN spec, THEN mp,
        OF conjI[OF h1 recoverable]]
    have h2: "fst ?R = Inl (Error ''MCP request failed (503): Service Unavailable'')"
      by code_simp
    note failed = rec[THEN conjunct2, THEN conjunct2, THEN conjunct1, THEN spec, THEN mp, OF h2]
    show ?thesis
      by (rule conjI[OF failed[THEN conjunct1] failed[THEN conjunct2, THEN conjunct2]])
  qed
  show ?thesis
    by (rule conjI[OF retry[THEN conjunct1]
          conjI[OF retry[THEN conjunct2, THEN conjunct1]
            conjI[OF retry[THEN conjunct2, THEN conjunct2, THEN conjunct1]
              conjI[OF retry[THEN conjunct2, THEN conjunct2, THEN conjunct2, THEN conjunct1]
                conjI[OF retry[THEN conjunct2, THEN conjunct2, THEN conjunct2, THEN conjunct2]
                  conjI[OF unauthorized refresh_fails]]]]]])
qed

text \<open>The retry at a concrete script in which the refresh fails.\<close>

theorem retry_skipped_when_refresh_fails:
  "script_refresh_fails ! 3 = Inl (McpRpcError ''Tool not found: lookup'' (Some (- 32601)))
   \<and> isRecoverableToolCallError test_dependencies (McpRpcError ''Tool not found: lookup'' (Some (- 32601)))
   \<and> map call_method
        (issued (snd (executeTool test_dependencies (fresh_client script_refresh_fails) one_server lookup_params)))
       = [''initialize'', ''notifications/initialized'', ''tools/list'', ''tools/call'', ''initialize'']
   \<and> countMethod ''tools/call''
        (issued (snd (executeTool test_dependencies (fresh_client script_refresh_fails) one_server lookup_params)))
       = 1
   \<and> details_retryApplied
        (details (fst (executeTool test_dependencies (fresh_client script_refresh_fails) one_server lookup_params)))
   \<and> error (details (fst (executeTool test_dependencies (fresh_client script_refresh_fails) one_server lookup_params)))
       = Some ''MCP request failed (503): Service Unavailable''"
  by code_simp

text \<open>
  Resolution of the target of a tool call. Without a server token the candidates are
  the catalogs of the enabled servers: no match is the not-found error, matches on
  more than one server id the ambiguity error with the sorted server names, and
  matches on one server id resolve to the server that \<open>findServerByToken\<close> returns
  for that id. With a server token only the catalog of the server it names is
  fetched. \<open>findServerByToken\<close> returns a server for its own id when no other
  configured server has an id or a display name equal to that id as a token.
\<close>

lemma findServerByToken_own_id:
  assumes "s \<in> set srvs"
    and "\<forall>s' \<in> set srvs. s' \<noteq> s \<longrightarrow>
           normalizeServerToken (server_id s') \<noteq> normalizeServerToken (server_id s)
         \<and> normalizeServerToken (server_name s') \<noteq> normalizeServerToken (server_id s)"
  shows "findServerByToken srvs (server_id s) = Some s"
  using assms by (induction srvs) auto

lemma resolveTool_without_token:
  assumes nt: "\<not> truthy (param_server params)"
    and ls: "listToolsAcrossServers deps st (filter enabled (servers rc)) (config_proxyBaseUrl rc)
               = (Inr catalogs, st1)"
    and m: "matched = filter (\<lambda>t. toolName t = tool) (concat (map tools catalogs))"
  shows "matched = [] \<Longrightarrow>
           resolveTool deps st rc params tool
             = (Inl (Error (''MCP tool not found: '' @ tool @ ''. ''
                  @ ''Use `search` first to discover available tools, then `describe` to inspect inputs.'')),
                st1)"
    and "1 < card (serverId ` set matched) \<Longrightarrow>
           resolveTool deps st rc params tool
             = (Inl (Error (''MCP tool '' @ dq @ tool @ dq @ '' is available on multiple servers (''
                  @ join '', '' (sort (remdups (map serverName matched)))
                  @ ''). Specify the server parameter.'')), st1)"
    and "matched \<noteq> [] \<Longrightarrow> card (serverId ` set matched) = 1 \<Longrightarrow>
         findServerByToken (servers rc) (serverId (hd matched)) = Some s \<Longrightarrow> enabled s \<Longrightarrow>
           resolveTool deps st rc params tool = (Inr (hd matched, s), st1)"
proof -
  have c: "length (remdups (map serverId matched)) = card (serverId ` set matched)"
    by (simp add: length_remdups_card_conv)
  show "resolveTool deps st rc params tool
             = (Inl (Error (''MCP tool not found: '' @ tool @ ''. ''
                  @ ''Use `search` first to discover available tools, then `describe` to inspect inputs.'')),
                st1)" if "matched = []"
    using that nt ls m by (simp add: resolveTool_def Let_def)
  show "resolveTool deps st rc params tool
             = (Inl (Error (''MCP tool '' @ dq @ tool @ dq @ '' is available on multiple servers (''
                  @ join '', '' (sort (remdups (map serverName matched)))
                  @ ''). Specify the server parameter.'')), st1)"
    if "1 < card (serverId ` set matched)"
  proof -
    from that have "matched \<noteq> []" by auto
    with that nt ls c show ?thesis
      unfolding m by (simp add: resolveTool_def Let_def)
  qed
  show "resolveTool deps st rc params tool = (Inr (hd matched, s), st1)"
    if "matched \<noteq> []" "card (serverId ` set matched) = 1"
      "findServerByToken (servers rc) (serverId (hd matched)) = Some s" "enabled s"
    using that nt ls c
    unfolding m by (simp add: resolveTool_def Let_def resolveSingleServer_def)
qed

lemma resolveTool_with_token:
  assumes t: "truthy (param_server params)"
    and rs: "resolveSingleServer rc (the (param_server params)) = Inr s"
    and es: "ensureServerTools deps st s (config_proxyBaseUrl rc) False = (Inr lst, st1)"
    and m: "filter (\<lambda>t. toolName t = tool) (tools lst) \<noteq> []"
    and own: "findServerByToken (servers rc) (serverId (hd (filter (\<lambda>t. toolName t = tool) (tools lst))))
                = Some s"
  shows "resolveTool deps st rc params tool
           = (Inr (hd (filter (\<lambda>t. toolName t = tool) (tools lst)), s), st1)"
    and "\<forall>c \<in> set (newCalls st st1). call_server c = s"
proof -
  have en: "enabled s"
    using rs by (auto simp: resolveSingleServer_def split: option.splits if_splits)
  show "resolveTool deps st rc params tool
           = (Inr (hd (filter (\<lambda>t. toolName t = tool) (tools lst)), s), st1)"
    using t rs es m own en by (simp add: resolveTool_def Let_def resolveSingleServer_def)
  from ensureServerTools_server[OF es] show "\<forall>c \<in> set (newCalls st st1). call_server c = s" .
qed

text \<open>
  C4 at a concrete configuration. Two servers, the display name of the first being
  the id of the second; the tool \<open>lookup\<close> is in the catalog of the second only.
  Called with the server token \<open>Second\<close>, which names the second server, the
  catalog consulted is that of the second server and the \<open>tools/call\<close> is sent
  to the first: the target is looked up again by the tool's server id as a token, and
  the name of the first server matches it. Called without a token while the first
  server is disabled, the tool matches on one server and the operation fails with the
  error that the first server is disabled, before any \<open>tools/call\<close>.
\<close>

theorem tool_call_sent_to_other_server:
  "findServerByToken (servers two_servers) ''Second'' = Some server_beta
   \<and> map (\<lambda>c. (server_id (call_server c), call_method c))
        (issued (snd (executeTool test_dependencies (fresh_client script_success) two_servers
                        (lookup_params\<lparr>param_server := Some ''Second''\<rparr>))))
       = [(''beta'', ''initialize''), (''beta'', ''notifications/initialized''),
          (''beta'', ''tools/list''), (''alpha'', ''tools/call'')]
   \<and> details_server (details (fst (executeTool test_dependencies (fresh_client script_success) two_servers
                        (lookup_params\<lparr>param_server := Some ''Second''\<rparr>))))
       = Some ''beta''
   \<and> map (\<lambda>c. (server_id (call_server c), call_method c))
        (issued (snd (executeTool test_dependencies (fresh_client script_success) first_disabled
                        lookup_params)))
       = [(''beta'', ''initialize''), (''beta'', ''notifications/initialized''),
          (''beta'', ''tools/list'')]
   \<and> errorText (fst (executeTool test_dependencies (fresh_client script_success) first_disabled
                        lookup_params))
       = Some (''Error: MCP server '' @ dq @ ''beta'' @ dq @ '' is disabled. Enable it in /integrations.'')"
  by code_simp

end
